theory Spec2Isabelle
  imports Main "HOL-Library.Word"
begin

section \<open>The Windows service shim of Stubby (src/windows/service.c)\<close>

text \<open>
  The file is glue between the service control manager, the event log and the resolution
  engine. Every function in it returns \<^verbatim>\<open>void\<close> and acts only through calls
  into those collaborators and through a handful of globals. The embedding therefore
  threads a record of the globals through each function and appends every external call
  to a trace; what an external call returns is read from an environment record, so a
  theorem quantified over the environment covers every behaviour of the collaborators.
\<close>

subsection \<open>Win32 types and constants\<close>

text \<open>
  \<^verbatim>\<open>DWORD\<close> is an unsigned 32-bit integer, \<^verbatim>\<open>WORD\<close> an unsigned 16-bit one. A handle
  or pointer is \<open>None\<close> when it is \<^verbatim>\<open>NULL\<close>. The numeric values below are those of the
  Windows SDK headers (winsvc.h, winbase.h, winnt.h), which service.c includes.
\<close>

type_synonym DWORD = "32 word"
type_synonym WORD = "16 word"
type_synonym HANDLE = "nat option"

definition SERVICE_STOPPED :: DWORD where "SERVICE_STOPPED = 1"
definition SERVICE_START_PENDING :: DWORD where "SERVICE_START_PENDING = 2"
definition SERVICE_STOP_PENDING :: DWORD where "SERVICE_STOP_PENDING = 3"
definition SERVICE_RUNNING :: DWORD where "SERVICE_RUNNING = 4"

definition SERVICE_ACCEPT_STOP :: DWORD where "SERVICE_ACCEPT_STOP = 1"
definition SERVICE_WIN32_OWN_PROCESS :: DWORD where "SERVICE_WIN32_OWN_PROCESS = 16"

definition SERVICE_CONTROL_STOP :: DWORD where "SERVICE_CONTROL_STOP = 1"
definition SERVICE_CONTROL_INTERROGATE :: DWORD where "SERVICE_CONTROL_INTERROGATE = 4"

definition WAIT_OBJECT_0 :: DWORD where "WAIT_OBJECT_0 = 0"
definition WAIT_ABANDONED :: DWORD where "WAIT_ABANDONED = 128"
definition WAIT_TIMEOUT :: DWORD where "WAIT_TIMEOUT = 258"
definition WAIT_FAILED :: DWORD where "WAIT_FAILED = 4294967295"

record SERVICE_STATUS =
  dwServiceType :: DWORD
  dwCurrentState :: DWORD
  dwControlsAccepted :: DWORD
  dwWin32ExitCode :: DWORD
  dwServiceSpecificExitCode :: DWORD
  dwCheckPoint :: DWORD
  dwWaitHint :: DWORD

subsection \<open>External calls\<close>

text \<open>An argument of a printf-style call: \<^verbatim>\<open>%s\<close> takes \<open>ArgS\<close>, \<^verbatim>\<open>%d\<close> takes \<open>ArgD\<close>.\<close>

datatype fmt_arg = ArgS string | ArgD int

text \<open>A registry value with its type tag.\<close>

datatype reg_value = REG_EXPAND_SZ string | REG_DWORD DWORD

text \<open>
  One constructor for each external function that service.c calls, with the arguments that
  matter to the caller's contract.
\<close>

datatype call =
    stubby_set_log_funcs
  | RegisterServiceCtrlHandler
  | SetServiceStatus SERVICE_STATUS
  | CreateEvent
  | SetEvent HANDLE
  | WaitForSingleObject HANDLE DWORD
  | CloseHandle HANDLE
  | getdns_context_create
  | stubby_set_getdns_logging int
  | init_config
  | read_config
  | server_listen int
  | getdns_context_get_eventloop
  | run_once int
  | getdns_context_destroy
  | delete_config
  | stubby_error string "fmt_arg list"
  | stubby_debug string
  | RegisterEventSource string
  | ReportEvent HANDLE WORD WORD DWORD "string list"
  | DeregisterEventSource HANDLE
  | GetModuleFileName
  | RegCreateKeyEx string DWORD
  | RegSetValueEx string reg_value
  | RegDeleteKey string
  | RegCloseKey
  | OpenSCManager
  | CreateService string string string
  | OpenService string DWORD
  | DeleteService
  | ChangeServiceConfig2 string
  | StartService "string list"
  | ControlService DWORD
  | CloseServiceHandle HANDLE
  | StartServiceCtrlDispatcher
  | fprintf_stderr string "fmt_arg list"
  | printf string

subsection \<open>Processes and what the operating system returns\<close>

text \<open>
  Every process of the program has a \<open>trace\<close>: the external calls made so far, oldest
  first. The service process and the command-line process extend this record below.
\<close>

record process =
  trace :: "call list"

definition emit :: "call \<Rightarrow> 'a process_scheme \<Rightarrow> 'a process_scheme" where
  "emit c s = s\<lparr>trace := trace s @ [c]\<rparr>"

text \<open>
  \<open>GetLastError_r\<close> is what \<^verbatim>\<open>GetLastError\<close> returns after a failed call, and
  \<open>FormatMessage_r\<close> the text \<^verbatim>\<open>FormatMessage\<close> finds for an error code, \<open>None\<close> where
  it returns 0.
\<close>

record os_env =
  GetLastError_r :: DWORD
  FormatMessage_r :: "DWORD \<Rightarrow> string option"

definition SVCNAME :: string where "SVCNAME = ''Stubby''"

definition EXIT_SUCCESS :: int where "EXIT_SUCCESS = 0"
definition EXIT_FAILURE :: int where "EXIT_FAILURE = 1"

subsection \<open>The globals of the service process\<close>

text \<open>
  \<open>gSvcStatus\<close>, \<open>gSvcStatusHandle\<close>, \<open>ghSvcStopEvent\<close> and \<open>dnssec_validation\<close> are
  the four file-scope variables; \<open>dwCheckPoint_static\<close> is the function-local
  \<^verbatim>\<open>static DWORD dwCheckPoint\<close> of \<open>ReportSvcStatus\<close>. \<open>stop_event_signaled\<close> is
  the state of the kernel event object behind \<open>ghSvcStopEvent\<close>.
\<close>

record svc_state = process +
  gSvcStatus :: SERVICE_STATUS
  gSvcStatusHandle :: HANDLE
  ghSvcStopEvent :: HANDLE
  dnssec_validation :: int
  dwCheckPoint_static :: DWORD
  stop_event_signaled :: bool

text \<open>
  The state at process start: globals without an initialiser are zero, \<open>ghSvcStopEvent\<close>
  is \<^verbatim>\<open>NULL\<close>, \<open>dnssec_validation\<close> is 0 and the static check point is 1.
\<close>

definition svc_start :: svc_state where
  "svc_start =
     \<lparr> trace = [],
       gSvcStatus = \<lparr> dwServiceType = 0, dwCurrentState = 0, dwControlsAccepted = 0,
                      dwWin32ExitCode = 0, dwServiceSpecificExitCode = 0,
                      dwCheckPoint = 0, dwWaitHint = 0 \<rparr>,
       gSvcStatusHandle = None,
       ghSvcStopEvent = None,
       dnssec_validation = 0,
       dwCheckPoint_static = 1,
       stop_event_signaled = False \<rparr>"

subsection \<open>What the collaborators return\<close>

text \<open>
  One pass of the run loop, seen from outside: the control codes the service control
  manager hands to \<open>SvcCtrlHandler\<close> since the previous poll, and whether the wait call
  of this pass fails.
\<close>

record tick =
  controls :: "DWORD list"
  wait_fails :: bool

record svc_env = os_env +
  RegisterServiceCtrlHandler_r :: HANDLE
  CreateEvent_r :: HANDLE
  getdns_context_create_r :: int
  read_config_r :: "int \<times> int"
  server_listen_r :: "int \<Rightarrow> int"
  getdns_context_get_eventloop_r :: int
  stubby_getdns_strerror_r :: "int option \<Rightarrow> string"
  ticks :: "tick list"

text \<open>
  \<open>read_config_r\<close> is the pair of the return value of \<^verbatim>\<open>read_config\<close> and the value it
  stores through its \<^verbatim>\<open>validate_dnssec\<close> out-parameter; \<open>server_listen_r\<close> may depend on
  the flag it is given.
\<close>

subsection \<open>Status reports\<close>

definition ReportSvcStatus :: "DWORD \<Rightarrow> DWORD \<Rightarrow> DWORD \<Rightarrow> svc_state \<Rightarrow> svc_state" where
  "ReportSvcStatus dwCurrentState' dwWin32ExitCode' dwWaitHint' s =
     (let st1 = (gSvcStatus s)\<lparr> dwCurrentState := dwCurrentState',
                                dwWin32ExitCode := dwWin32ExitCode',
                                dwWaitHint := dwWaitHint' \<rparr>;
          st2 = (if dwCurrentState' = SERVICE_START_PENDING
                 then st1\<lparr>dwControlsAccepted := 0\<rparr>
                 else st1\<lparr>dwControlsAccepted := SERVICE_ACCEPT_STOP\<rparr>);
          (st3, cp) =
             (if dwCurrentState' = SERVICE_RUNNING \<or> dwCurrentState' = SERVICE_STOPPED
              then (st2\<lparr>dwCheckPoint := 0\<rparr>, dwCheckPoint_static s)
              else (st2\<lparr>dwCheckPoint := dwCheckPoint_static s\<rparr>, dwCheckPoint_static s + 1))
      in emit (SetServiceStatus st3) (s\<lparr>gSvcStatus := st3, dwCheckPoint_static := cp\<rparr>))"

subsection \<open>Error reports of the service\<close>

definition report_winerr ::
  "'e os_env_scheme \<Rightarrow> string \<Rightarrow> 'a process_scheme \<Rightarrow> 'a process_scheme" where
  "report_winerr env operation s =
     (let err = GetLastError_r env
      in case FormatMessage_r env err of
           None \<Rightarrow> emit (stubby_error (''Error: %s: errno=%d'' @ [CHR 0x0A])
                         [ArgS operation, ArgD (sint err)]) s
         | Some msg \<Rightarrow> emit (stubby_error (''Error: %s: %s'' @ [CHR 0x0A])
                             [ArgS operation, ArgS msg]) s)"

definition report_getdnserr :: "svc_env \<Rightarrow> string \<Rightarrow> svc_state \<Rightarrow> svc_state" where
  "report_getdnserr env operation s =
     emit (stubby_error ''%s: %s'' [ArgS operation, ArgS (stubby_getdns_strerror_r env None)]) s"

subsection \<open>The control handler\<close>

text \<open>
  \<^verbatim>\<open>SetEvent\<close> signals the event object when the handle is valid; the object is a
  manual-reset event, so it stays signaled.
\<close>

definition SetEvent_call :: "svc_state \<Rightarrow> svc_state" where
  "SetEvent_call s =
     emit (SetEvent (ghSvcStopEvent s))
       (s\<lparr>stop_event_signaled := (stop_event_signaled s \<or> ghSvcStopEvent s \<noteq> None)\<rparr>)"

definition SvcCtrlHandler :: "DWORD \<Rightarrow> svc_state \<Rightarrow> svc_state" where
  "SvcCtrlHandler dwCtrl s =
     (if dwCtrl = SERVICE_CONTROL_STOP
      then SetEvent_call (ReportSvcStatus SERVICE_STOP_PENDING 0 0 s)
      else if dwCtrl = SERVICE_CONTROL_INTERROGATE then s
      else s)"

subsection \<open>The run loop\<close>

text \<open>
  What \<^verbatim>\<open>WaitForSingleObject(h, 0)\<close> returns for an event object, by the Win32
  contract: \<^verbatim>\<open>WAIT_FAILED\<close> when the call fails, \<^verbatim>\<open>WAIT_OBJECT_0\<close> when the object is
  signaled, \<^verbatim>\<open>WAIT_TIMEOUT\<close> when the (zero) time-out elapsed with the object
  unsignaled.
\<close>

definition WaitForSingleObject_r :: "bool \<Rightarrow> bool \<Rightarrow> DWORD" where
  "WaitForSingleObject_r fails signaled =
     (if fails then WAIT_FAILED else if signaled then WAIT_OBJECT_0 else WAIT_TIMEOUT)"

text \<open>
  A function that contains the loop either returns or is still inside the loop when the
  schedule of ticks ends; both carry the state reached.
\<close>

datatype 'a outcome = Returned 'a | Looping 'a

fun outcome_state :: "'a outcome \<Rightarrow> 'a" where
  "outcome_state (Returned s) = s"
| "outcome_state (Looping s) = s"

fun has_returned :: "'a outcome \<Rightarrow> bool" where
  "has_returned (Returned s) = True"
| "has_returned (Looping s) = False"

text \<open>
  The body of the \<^verbatim>\<open>switch\<close>: the new value of \<^verbatim>\<open>more\<close> (1 before the loop and never
  set back to 1) and the state after the branch.
\<close>

definition wait_switch :: "svc_env \<Rightarrow> DWORD \<Rightarrow> svc_state \<Rightarrow> int \<times> svc_state" where
  "wait_switch env r s =
     (if r = WAIT_OBJECT_0 then (1, s)
      else if r = WAIT_FAILED then (0, report_winerr env ''WaitForSingleObject'' s)
      else (0, emit (stubby_debug ''Stop object signalled'') s))"

fun run_loop :: "svc_env \<Rightarrow> tick list \<Rightarrow> svc_state \<Rightarrow> svc_state outcome" where
  "run_loop env [] s = Looping s"
| "run_loop env (t # ts) s =
     (let s1 = foldl (\<lambda>s c. SvcCtrlHandler c s) s (controls t);
          r = WaitForSingleObject_r (wait_fails t) (stop_event_signaled s1);
          s2 = emit (WaitForSingleObject (ghSvcStopEvent s1) 0) s1;
          (more, s3) = wait_switch env r s2
      in if more = 0 then Returned s3
         else run_loop env ts (emit (run_once 1) s3))"

subsection \<open>Service start-up and tear-down\<close>

text \<open>The statements after the label \<^verbatim>\<open>tidy_and_exit\<close>.\<close>

definition tidy_and_exit :: "svc_state \<Rightarrow> svc_state" where
  "tidy_and_exit s =
     (let s1 = emit getdns_context_destroy s;
          s2 = emit delete_config s1;
          s3 = emit (CloseHandle (ghSvcStopEvent s2)) s2
      in s3\<lparr>ghSvcStopEvent := None, stop_event_signaled := False\<rparr>)"

text \<open>\<^verbatim>\<open>lpszArgv[1][0] - '0'\<close>, the first character read as a signed \<^verbatim>\<open>char\<close>.\<close>

definition first_char :: "string \<Rightarrow> int" where
  "first_char str =
     (case str of [] \<Rightarrow> 0
      | c # _ \<Rightarrow> (let n = int (of_char c) in if n < 128 then n else n - 256))"

definition SvcInit :: "svc_env \<Rightarrow> string list \<Rightarrow> svc_state \<Rightarrow> svc_state outcome" where
  "SvcInit env lpszArgv s =
     (let s1 = (emit CreateEvent s)\<lparr>ghSvcStopEvent := CreateEvent_r env,
                                     stop_event_signaled := False\<rparr>
      in if ghSvcStopEvent s1 = None
         then Returned (ReportSvcStatus SERVICE_STOPPED 1 0 s1)
         else
      let s2 = ReportSvcStatus SERVICE_START_PENDING 0 1000 s1;
          r = getdns_context_create_r env;
          s3 = emit getdns_context_create s2
      in if r \<noteq> 0
         then
           (let s4 = emit (stubby_error ''Create context failed: %s''
                             [ArgS (stubby_getdns_strerror_r env (Some r))]) s3;
                s5 = ReportSvcStatus SERVICE_STOPPED 1 0 s4;
                s6 = emit (CloseHandle (ghSvcStopEvent s5)) s5
            in Returned (s6\<lparr>ghSvcStopEvent := None, stop_event_signaled := False\<rparr>))
         else
      let s4 = (if length lpszArgv > 1
                then emit (stubby_set_getdns_logging (first_char (lpszArgv ! 1) - 48)) s3
                else s3);
          s5 = emit init_config s4;
          s6 = ReportSvcStatus SERVICE_START_PENDING 0 1010 s5;
          s7 = emit read_config s6
      in if fst (read_config_r env) = 0
         then Returned (tidy_and_exit (ReportSvcStatus SERVICE_STOPPED 1 0 s7))
         else
      let s8 = ReportSvcStatus SERVICE_START_PENDING 0 1020 s7;
          s9 = emit (server_listen (dnssec_validation s8)) s8
      in if server_listen_r env (dnssec_validation s8) = 0
         then Returned (tidy_and_exit (ReportSvcStatus SERVICE_STOPPED 1 0 s9))
         else
      let s10 = ReportSvcStatus SERVICE_START_PENDING 0 1030 s9;
          s11 = emit getdns_context_get_eventloop s10
      in if getdns_context_get_eventloop_r env \<noteq> 0
         then Returned (tidy_and_exit
                 (ReportSvcStatus SERVICE_STOPPED 1 0 (report_getdnserr env ''Get event loop'' s11)))
         else
           (case run_loop env (ticks env) (ReportSvcStatus SERVICE_RUNNING 0 0 s11) of
              Looping s' \<Rightarrow> Looping s'
            | Returned s' \<Rightarrow> Returned (tidy_and_exit (ReportSvcStatus SERVICE_STOPPED 0 0 s'))))"

definition SvcMain :: "svc_env \<Rightarrow> string list \<Rightarrow> svc_state \<Rightarrow> svc_state outcome" where
  "SvcMain env lpszArgv s =
     (let s1 = emit stubby_set_log_funcs s;
          s2 = (emit RegisterServiceCtrlHandler s1)
                 \<lparr>gSvcStatusHandle := RegisterServiceCtrlHandler_r env\<rparr>
      in if gSvcStatusHandle s2 = None
         then Returned (report_winerr env ''RegisterServiceCtrlHandler'' s2)
         else
           (let s3 = s2\<lparr>gSvcStatus := (gSvcStatus s2)\<lparr>dwServiceType := SERVICE_WIN32_OWN_PROCESS,
                                                       dwServiceSpecificExitCode := 0\<rparr>\<rparr>;
                s4 = ReportSvcStatus SERVICE_START_PENDING 0 3000 s3
            in SvcInit env lpszArgv s4))"

subsection \<open>The logging bridge\<close>

text \<open>
  The severities of \<^verbatim>\<open>getdns_loglevel_type\<close> (getdns.h) and the event classes of the
  event log (winnt.h). A C enumeration is an integer, so a caller can pass any value.
\<close>

definition GETDNS_LOG_EMERG :: int where "GETDNS_LOG_EMERG = 0"
definition GETDNS_LOG_ALERT :: int where "GETDNS_LOG_ALERT = 1"
definition GETDNS_LOG_CRIT :: int where "GETDNS_LOG_CRIT = 2"
definition GETDNS_LOG_ERR :: int where "GETDNS_LOG_ERR = 3"
definition GETDNS_LOG_WARNING :: int where "GETDNS_LOG_WARNING = 4"
definition GETDNS_LOG_NOTICE :: int where "GETDNS_LOG_NOTICE = 5"
definition GETDNS_LOG_INFO :: int where "GETDNS_LOG_INFO = 6"
definition GETDNS_LOG_DEBUG :: int where "GETDNS_LOG_DEBUG = 7"

definition EVENTLOG_ERROR_TYPE :: WORD where "EVENTLOG_ERROR_TYPE = 1"
definition EVENTLOG_WARNING_TYPE :: WORD where "EVENTLOG_WARNING_TYPE = 2"
definition EVENTLOG_INFORMATION_TYPE :: WORD where "EVENTLOG_INFORMATION_TYPE = 4"

text \<open>
  The names of the event identifiers. Their numbers are defined in windowsservice.h, which
  the message compiler generates and which is not among the sources; the functions below
  take the numbering as the field \<open>event_id\<close> of their environment.
\<close>

datatype svc_message =
    SVC_EMERGENCY | SVC_ALERT | SVC_CRITICAL | SVC_ERROR
  | SVC_WARNING | SVC_NOTICE | SVC_INFO | SVC_DEBUG

record log_env = os_env +
  RegisterEventSource_r :: HANDLE
  event_id :: "svc_message \<Rightarrow> DWORD"

text \<open>The \<^verbatim>\<open>switch\<close> of \<open>report_verror\<close>: event type and event identifier.\<close>

definition severity_switch :: "int \<Rightarrow> WORD \<times> svc_message" where
  "severity_switch level =
     (if level = GETDNS_LOG_EMERG then (EVENTLOG_ERROR_TYPE, SVC_EMERGENCY)
      else if level = GETDNS_LOG_ALERT then (EVENTLOG_ERROR_TYPE, SVC_ALERT)
      else if level = GETDNS_LOG_CRIT then (EVENTLOG_ERROR_TYPE, SVC_CRITICAL)
      else if level = GETDNS_LOG_ERR then (EVENTLOG_ERROR_TYPE, SVC_ERROR)
      else if level = GETDNS_LOG_WARNING then (EVENTLOG_WARNING_TYPE, SVC_WARNING)
      else if level = GETDNS_LOG_NOTICE then (EVENTLOG_WARNING_TYPE, SVC_NOTICE)
      else if level = GETDNS_LOG_INFO then (EVENTLOG_INFORMATION_TYPE, SVC_INFO)
      else (EVENTLOG_INFORMATION_TYPE, SVC_DEBUG))"

text \<open>
  \<open>formatted\<close> is the text that the format string and its arguments expand to;
  \<^verbatim>\<open>vsnprintf\<close> keeps at most 255 characters of it in the 256-byte buffer.
\<close>

definition report_verror ::
  "'e log_env_scheme \<Rightarrow> int \<Rightarrow> string \<Rightarrow> 'a process_scheme \<Rightarrow> 'a process_scheme" where
  "report_verror env level formatted s =
     (let hEventSource = RegisterEventSource_r env;
          s1 = emit (RegisterEventSource SVCNAME) s
      in if hEventSource = None then s1
         else
           (let (eventType, eventId) = severity_switch level;
                buf = take 255 formatted;
                s2 = emit (ReportEvent hEventSource eventType 0 (event_id env eventId)
                             [SVCNAME, buf]) s1
            in emit (DeregisterEventSource hEventSource) s2))"

definition report_vlog ::
  "'e log_env_scheme \<Rightarrow> nat \<Rightarrow> 64 word \<Rightarrow> int \<Rightarrow> string \<Rightarrow> 'a process_scheme
     \<Rightarrow> 'a process_scheme" where
  "report_vlog env userarg system level formatted s = report_verror env level formatted s"

subsection \<open>The command-line process\<close>

text \<open>
  What the commands change outside the process: the event-log registry key of the
  service (\<open>None\<close> when the key is absent, otherwise its values by name) and the entry of
  the service in the database of the service control manager.
\<close>

record service_entry =
  display_name :: string
  binary_path :: string
  description :: "string option"

record system =
  eventlog_key :: "(string \<rightharpoonup> reg_value) option"
  service :: "service_entry option"

record cli_state = process +
  sys :: system

record cli_env = os_env +
  GetModuleFileName_r :: "string option"
  RegCreateKeyEx_r :: DWORD
  RegSetValueEx_r :: "string \<Rightarrow> DWORD"
  RegDeleteKey_r :: DWORD
  OpenSCManager_r :: HANDLE
  CreateService_r :: HANDLE
  OpenService_r :: HANDLE
  DeleteService_r :: bool
  ChangeServiceConfig2_r :: bool
  StartService_r :: bool
  ControlService_r :: bool
  StartServiceCtrlDispatcher_r :: "bool option"

text \<open>
  A registry call returns a status, \<^verbatim>\<open>ERROR_SUCCESS\<close> or an error code; the calls that
  return a handle return \<^verbatim>\<open>NULL\<close> on failure, those that return a \<^verbatim>\<open>BOOL\<close> return
  false. \<open>StartServiceCtrlDispatcher_r\<close> is \<open>None\<close> when the dispatcher does not return,
  which is the case for as long as the service runs.
\<close>

definition ERROR_SUCCESS :: DWORD where "ERROR_SUCCESS = 0"
definition KEY_WRITE :: DWORD where "KEY_WRITE = 131078"
definition DELETE :: DWORD where "DELETE = 65536"
definition SERVICE_START :: DWORD where "SERVICE_START = 16"
definition SERVICE_STOP :: DWORD where "SERVICE_STOP = 32"

text \<open>
  A function of the command-line process returns to its caller (\<open>Next\<close>), ends the
  process through \<^verbatim>\<open>exit\<close> with a status (\<open>Exit\<close>), or does not come back (\<open>Hang\<close>).
\<close>

datatype 'a flow = Next 'a | Exit int 'a | Hang 'a

fun flow_state :: "'a flow \<Rightarrow> 'a" where
  "flow_state (Next s) = s"
| "flow_state (Exit n s) = s"
| "flow_state (Hang s) = s"

fun exit_status :: "'a flow \<Rightarrow> int option" where
  "exit_status (Next s) = None"
| "exit_status (Exit n s) = Some n"
| "exit_status (Hang s) = None"

definition winerr ::
  "'e os_env_scheme \<Rightarrow> string \<Rightarrow> DWORD \<Rightarrow> 'a process_scheme \<Rightarrow> 'a process_scheme flow" where
  "winerr env operation err s =
     (case FormatMessage_r env err of
        None \<Rightarrow> Exit EXIT_FAILURE
                 (emit (fprintf_stderr (''Error: %s: errno=%d'' @ [CHR 0x0A])
                          [ArgS operation, ArgD (sint err)]) s)
      | Some msg \<Rightarrow> Exit EXIT_FAILURE
                 (emit (fprintf_stderr (''Error: %s: %s'' @ [CHR 0x0A])
                          [ArgS operation, ArgS msg]) s))"

definition winlasterr ::
  "'e os_env_scheme \<Rightarrow> string \<Rightarrow> 'a process_scheme \<Rightarrow> 'a process_scheme flow" where
  "winlasterr env operation s = winerr env operation (GetLastError_r env) s"

text \<open>The registry path of the application event log, and the key of the service below it.\<close>

definition eventlog_application :: string where
  "eventlog_application =
     ''SYSTEM'' @ [CHR 0x5C] @ ''CurrentControlSet'' @ [CHR 0x5C] @ ''Services'' @ [CHR 0x5C]
       @ ''EventLog'' @ [CHR 0x5C] @ ''Application''"

definition eventlog_service_key :: string where
  "eventlog_service_key = eventlog_application @ [CHR 0x5C] @ SVCNAME"

text \<open>
  \<^verbatim>\<open>RegSetValueEx\<close> on the open key of the service: the call, and the value stored when
  the call succeeds.
\<close>

definition RegSetValueEx_call :: "cli_env \<Rightarrow> string \<Rightarrow> reg_value \<Rightarrow> cli_state \<Rightarrow> cli_state" where
  "RegSetValueEx_call env name v s =
     (let s1 = emit (RegSetValueEx name v) s
      in if RegSetValueEx_r env name = ERROR_SUCCESS
         then s1\<lparr>sys := (sys s1)\<lparr>eventlog_key :=
                  map_option (\<lambda>vals. vals(name \<mapsto> v)) (eventlog_key (sys s1))\<rparr>\<rparr>
         else s1)"

definition createRegistryEntries :: "cli_env \<Rightarrow> string \<Rightarrow> cli_state \<Rightarrow> cli_state flow" where
  "createRegistryEntries env path s =
     (let status = RegCreateKeyEx_r env;
          s1 = emit (RegCreateKeyEx eventlog_service_key KEY_WRITE) s;
          s2 = (if status = ERROR_SUCCESS
                then s1\<lparr>sys := (sys s1)\<lparr>eventlog_key :=
                         Some (case eventlog_key (sys s1) of None \<Rightarrow> Map.empty
                               | Some vals \<Rightarrow> vals)\<rparr>\<rparr>
                else s1)
      in if status \<noteq> ERROR_SUCCESS then winerr env ''Create registry key'' status s2
         else
      let s3 = RegSetValueEx_call env ''EventMessageFile'' (REG_EXPAND_SZ path) s2;
          status = RegSetValueEx_r env ''EventMessageFile''
      in if status \<noteq> ERROR_SUCCESS
         then winerr env ''Set EventMessageFile'' status (emit RegCloseKey s3)
         else
      let s4 = RegSetValueEx_call env ''CategoryMessageFile'' (REG_EXPAND_SZ path) s3;
          status = RegSetValueEx_r env ''CategoryMessageFile''
      in if status \<noteq> ERROR_SUCCESS
         then winerr env ''Set CategoryMessageFile'' status (emit RegCloseKey s4)
         else
      let t = ucast (or EVENTLOG_ERROR_TYPE (or EVENTLOG_WARNING_TYPE EVENTLOG_INFORMATION_TYPE));
          s5 = RegSetValueEx_call env ''TypesSupported'' (REG_DWORD t) s4;
          status = RegSetValueEx_r env ''TypesSupported''
      in if status \<noteq> ERROR_SUCCESS
         then winerr env ''Set TypesSupported'' status (emit RegCloseKey s5)
         else
      let t = 1;
          s6 = RegSetValueEx_call env ''CategoryCount'' (REG_DWORD t) s5;
          status = RegSetValueEx_r env ''CategoryCount''
      in if status \<noteq> ERROR_SUCCESS
         then winerr env ''Set TypesSupported'' status (emit RegCloseKey s6)
         else Next (emit RegCloseKey s6))"

definition deleteRegistryEntries :: "cli_env \<Rightarrow> cli_state \<Rightarrow> cli_state flow" where
  "deleteRegistryEntries env s =
     (let status = RegCreateKeyEx_r env;
          s1 = emit (RegCreateKeyEx eventlog_application DELETE) s
      in if status \<noteq> ERROR_SUCCESS then winerr env ''Create registry key'' status s1
         else
      let status = RegDeleteKey_r env;
          s2 = emit (RegDeleteKey SVCNAME) s1;
          s3 = (if status = ERROR_SUCCESS
                then s2\<lparr>sys := (sys s2)\<lparr>eventlog_key := None\<rparr>\<rparr>
                else s2)
      in if status \<noteq> ERROR_SUCCESS
         then winerr env ''Delete registry key'' status (emit RegCloseKey s3)
         else Next (emit RegCloseKey s3))"

definition SvcInstall :: "cli_env \<Rightarrow> cli_state \<Rightarrow> cli_state flow" where
  "SvcInstall env s =
     (let s1 = emit GetModuleFileName s
      in case GetModuleFileName_r env of
           None \<Rightarrow> winlasterr env ''GetModuleFileName'' s1
         | Some modpath \<Rightarrow>
      let cmd = [CHR 0x22] @ modpath @ [CHR 0x22] @ '' '' @ ''-w service''
      in case createRegistryEntries env modpath s1 of
           Exit n s' \<Rightarrow> Exit n s'
         | Hang s' \<Rightarrow> Hang s'
         | Next s2 \<Rightarrow>
      let schSCManager = OpenSCManager_r env;
          s3 = emit OpenSCManager s2
      in if schSCManager = None then winlasterr env ''Open service manager'' s3
         else
      let schService = CreateService_r env;
          s4 = emit (CreateService SVCNAME ''Stubby Secure DNS Proxy'' cmd) s3;
          s5 = (if schService \<noteq> None
                then s4\<lparr>sys := (sys s4)\<lparr>service :=
                         Some \<lparr>display_name = ''Stubby Secure DNS Proxy'',
                               binary_path = cmd, description = None\<rparr>\<rparr>\<rparr>
                else s4)
      in if schService = None
         then winlasterr env ''Create service'' (emit (CloseServiceHandle schSCManager) s5)
         else
      let text = ''Enable performing DNS name lookups over secure channels.'';
          s6 = emit (ChangeServiceConfig2 text) s5;
          s7 = (if ChangeServiceConfig2_r env
                then s6\<lparr>sys := (sys s6)\<lparr>service :=
                         map_option (\<lambda>e. e\<lparr>description := Some text\<rparr>) (service (sys s6))\<rparr>\<rparr>
                else s6);
          s8 = emit (printf (''Service installed successfully'' @ [CHR 0x0A])) s7;
          s9 = emit (CloseServiceHandle schService) s8
      in Next (emit (CloseServiceHandle schSCManager) s9))"

definition SvcRemove :: "cli_env \<Rightarrow> cli_state \<Rightarrow> cli_state flow" where
  "SvcRemove env s =
     (let schSCManager = OpenSCManager_r env;
          s1 = emit OpenSCManager s
      in if schSCManager = None then winlasterr env ''Open service manager'' s1
         else
      let schService = OpenService_r env;
          s2 = emit (OpenService SVCNAME DELETE) s1
      in if schService = None
         then winlasterr env ''Open service'' (emit (CloseServiceHandle schSCManager) s2)
         else
      let s3 = emit DeleteService s2;
          s4 = (if DeleteService_r env then s3\<lparr>sys := (sys s3)\<lparr>service := None\<rparr>\<rparr> else s3)
      in if \<not> DeleteService_r env
         then winlasterr env ''Delete service''
                (emit (CloseServiceHandle schSCManager) (emit (CloseServiceHandle schService) s4))
         else
      let s5 = emit (CloseServiceHandle schService) s4;
          s6 = emit (CloseServiceHandle schSCManager) s5
      in case deleteRegistryEntries env s6 of
           Exit n s' \<Rightarrow> Exit n s'
         | Hang s' \<Rightarrow> Hang s'
         | Next s7 \<Rightarrow> Next (emit (printf (''Service removed successfully'' @ [CHR 0x0A])) s7))"

text \<open>\<^verbatim>\<open>'0' + loglevel\<close> stored in a \<^verbatim>\<open>char\<close>; a NUL character ends the string.\<close>

definition loglevelstr :: "int \<Rightarrow> string" where
  "loglevelstr loglevel =
     (let c = char_of (48 + loglevel) in if c = CHR 0x00 then [] else [c])"

definition SvcStart :: "cli_env \<Rightarrow> int \<Rightarrow> cli_state \<Rightarrow> cli_state flow" where
  "SvcStart env loglevel s =
     (let schSCManager = OpenSCManager_r env;
          s1 = emit OpenSCManager s
      in if schSCManager = None then winlasterr env ''Open service manager'' s1
         else
      let schService = OpenService_r env;
          s2 = emit (OpenService SVCNAME SERVICE_START) s1
      in if schService = None
         then winlasterr env ''Open service'' (emit (CloseServiceHandle schSCManager) s2)
         else
      let args = [SVCNAME, loglevelstr loglevel];
          s3 = emit (StartService args) s2
      in if \<not> StartService_r env
         then winlasterr env ''Start service''
                (emit (CloseServiceHandle schSCManager) (emit (CloseServiceHandle schService) s3))
         else
      let s4 = emit (CloseServiceHandle schService) s3;
          s5 = emit (CloseServiceHandle schSCManager) s4
      in Next (emit (printf (''Service started successfully'' @ [CHR 0x0A])) s5))"

definition SvcStop :: "cli_env \<Rightarrow> cli_state \<Rightarrow> cli_state flow" where
  "SvcStop env s =
     (let schSCManager = OpenSCManager_r env;
          s1 = emit OpenSCManager s
      in if schSCManager = None then winlasterr env ''Open service manager'' s1
         else
      let schService = OpenService_r env;
          s2 = emit (OpenService SVCNAME SERVICE_STOP) s1
      in if schService = None
         then winlasterr env ''Open service'' (emit (CloseServiceHandle schSCManager) s2)
         else
      let s3 = emit (ControlService SERVICE_CONTROL_STOP) s2
      in if \<not> ControlService_r env
         then winlasterr env ''Stop service''
                (emit (CloseServiceHandle schSCManager) (emit (CloseServiceHandle schService) s3))
         else
      let s4 = emit (CloseServiceHandle schService) s3;
          s5 = emit (CloseServiceHandle schSCManager) s4
      in Next (emit (printf (''Service stopped successfully'' @ [CHR 0x0A])) s5))"

definition SvcService :: "cli_env \<Rightarrow> cli_state \<Rightarrow> cli_state flow" where
  "SvcService env s =
     (let s1 = emit StartServiceCtrlDispatcher s
      in case StartServiceCtrlDispatcher_r env of
           None \<Rightarrow> Hang s1
         | Some ok \<Rightarrow>
             if \<not> ok then Next (report_winerr env ''StartServiceCtrlDispatcher'' s1)
             else Next s1)"

text \<open>
  \<^verbatim>\<open>lstrcmpi\<close> compares without regard to case; the caller looks only at whether the
  result is 0. The model folds the letters A to Z, which is what the comparison does on
  the ASCII tokens of the command line.
\<close>

definition to_lower :: "char \<Rightarrow> char" where
  "to_lower c =
     (case map_of (zip ''ABCDEFGHIJKLMNOPQRSTUVWXYZ'' ''abcdefghijklmnopqrstuvwxyz'') c of
        None \<Rightarrow> c
      | Some l \<Rightarrow> l)"

definition lstrcmpi :: "string \<Rightarrow> string \<Rightarrow> int" where
  "lstrcmpi a b = (if map to_lower a = map to_lower b then 0 else 1)"

definition unknown_option :: "string \<Rightarrow> call" where
  "unknown_option arg =
     fprintf_stderr (''Unknown Windows option '' @ [CHR 0x27] @ ''%s'' @ [CHR 0x27, CHR 0x0A])
       [ArgS arg]"

fun exit_after :: "int \<Rightarrow> 'a flow \<Rightarrow> 'a flow" where
  "exit_after n (Next s) = Exit n s"
| "exit_after n (Exit m s) = Exit m s"
| "exit_after n (Hang s) = Hang s"

definition windows_service_command ::
  "cli_env \<Rightarrow> string \<Rightarrow> int \<Rightarrow> cli_state \<Rightarrow> cli_state flow" where
  "windows_service_command env arg loglevel s =
     (if lstrcmpi arg ''install'' = 0 then exit_after EXIT_SUCCESS (SvcInstall env s)
      else if lstrcmpi arg ''remove'' = 0 then exit_after EXIT_SUCCESS (SvcRemove env s)
      else if lstrcmpi arg ''service'' = 0 then exit_after EXIT_SUCCESS (SvcService env s)
      else if lstrcmpi arg ''start'' = 0 then exit_after EXIT_SUCCESS (SvcStart env loglevel s)
      else if lstrcmpi arg ''stop'' = 0 then exit_after EXIT_SUCCESS (SvcStop env s)
      else Exit EXIT_FAILURE (emit (unknown_option arg) s))"

section \<open>Observations on traces\<close>

text \<open>The three steps of the tear-down.\<close>

fun is_teardown :: "call \<Rightarrow> bool" where
  "is_teardown getdns_context_destroy = True"
| "is_teardown delete_config = True"
| "is_teardown (CloseHandle h) = True"
| "is_teardown _ = False"

text \<open>The status record a call reports to the service control manager, if it reports one.\<close>

fun status_of :: "call \<Rightarrow> SERVICE_STATUS option" where
  "status_of (SetServiceStatus st) = Some st"
| "status_of _ = None"

definition reports :: "DWORD \<Rightarrow> call \<Rightarrow> bool" where
  "reports state c =
     (case status_of c of None \<Rightarrow> False | Some st \<Rightarrow> dwCurrentState st = state)"

fun statuses :: "call list \<Rightarrow> SERVICE_STATUS list" where
  "statuses [] = []"
| "statuses (c # cs) =
     (case status_of c of None \<Rightarrow> statuses cs | Some st \<Rightarrow> st # statuses cs)"

text \<open>
  The test of \<open>ReportSvcStatus\<close> that resets the check point: the state is
  \<^verbatim>\<open>SERVICE_RUNNING\<close> or \<^verbatim>\<open>SERVICE_STOPPED\<close>.
\<close>

definition steady :: "SERVICE_STATUS \<Rightarrow> bool" where
  "steady st = (dwCurrentState st = SERVICE_RUNNING \<or> dwCurrentState st = SERVICE_STOPPED)"

definition pending_reports :: "call list \<Rightarrow> SERVICE_STATUS list" where
  "pending_reports tr = filter (\<lambda>st. \<not> steady st) (statuses tr)"

text \<open>
  The check points reported so far count the pending reports from 1, the static counter
  holds the next number, and every steady report carries 0. All numbers are 32-bit.
\<close>

definition checkpoint_inv :: "svc_state \<Rightarrow> bool" where
  "checkpoint_inv s =
     (let n = length (pending_reports (trace s))
      in map dwCheckPoint (pending_reports (trace s)) = map of_nat [1..<Suc n]
         \<and> dwCheckPoint_static s = of_nat (Suc n)
         \<and> list_all (\<lambda>st. steady st \<longrightarrow> dwCheckPoint st = 0) (statuses (trace s)))"

text \<open>The calls that the run loop and the control handler can make.\<close>

fun loop_call :: "call \<Rightarrow> bool" where
  "loop_call (SetServiceStatus st) = (dwCurrentState st = SERVICE_STOP_PENDING)"
| "loop_call (SetEvent h) = True"
| "loop_call (WaitForSingleObject h t) = True"
| "loop_call (run_once n) = True"
| "loop_call (stubby_error f as) = True"
| "loop_call (stubby_debug m) = True"
| "loop_call _ = False"

text \<open>Some call that satisfies \<open>P\<close> is followed, later in the trace, by one that satisfies \<open>Q\<close>.\<close>

fun occurs_before :: "('a \<Rightarrow> bool) \<Rightarrow> ('a \<Rightarrow> bool) \<Rightarrow> 'a list \<Rightarrow> bool" where
  "occurs_before P Q [] = False"
| "occurs_before P Q (c # cs) = ((P c \<and> list_ex Q cs) \<or> occurs_before P Q cs)"

text \<open>The calls made between two states of a process.\<close>

definition new_calls :: "'a process_scheme \<Rightarrow> 'a process_scheme \<Rightarrow> call list" where
  "new_calls s s' = drop (length (trace s)) (trace s')"

text \<open>The calls made inside the run loop, those of the control handler included.\<close>

definition loop_calls :: "svc_env \<Rightarrow> tick list \<Rightarrow> svc_state \<Rightarrow> call list" where
  "loop_calls env ts s = new_calls s (outcome_state (run_loop env ts s))"

text \<open>The calls before the first report of \<^verbatim>\<open>SERVICE_STOPPED\<close>.\<close>

definition until_stopped :: "call list \<Rightarrow> call list" where
  "until_stopped tr = takeWhile (\<lambda>c. \<not> reports SERVICE_STOPPED c) tr"

text \<open>
  One of the four checks of \<open>SvcInit\<close> between the creation of the stop event and the
  report of \<^verbatim>\<open>SERVICE_RUNNING\<close> fails; \<open>flag\<close> is the flag given to \<^verbatim>\<open>server_listen\<close>.
\<close>

definition startup_fails :: "svc_env \<Rightarrow> int \<Rightarrow> bool" where
  "startup_fails env flag =
     (getdns_context_create_r env \<noteq> 0 \<or> fst (read_config_r env) = 0
      \<or> server_listen_r env flag = 0 \<or> getdns_context_get_eventloop_r env \<noteq> 0)"

text \<open>
  The mapping of severities to event classes in the words of the specification:
  emergency, alert, critical and error are errors, warning and notice are warnings, info
  and everything else is information.
\<close>

definition event_class_of_severity :: "int \<Rightarrow> WORD" where
  "event_class_of_severity level =
     (if level \<in> {GETDNS_LOG_EMERG, GETDNS_LOG_ALERT, GETDNS_LOG_CRIT, GETDNS_LOG_ERR}
      then EVENTLOG_ERROR_TYPE
      else if level \<in> {GETDNS_LOG_WARNING, GETDNS_LOG_NOTICE} then EVENTLOG_WARNING_TYPE
      else EVENTLOG_INFORMATION_TYPE)"

text \<open>The eight severities that have a name.\<close>

definition named_severities :: "int list" where
  "named_severities =
     [GETDNS_LOG_EMERG, GETDNS_LOG_ALERT, GETDNS_LOG_CRIT, GETDNS_LOG_ERR,
      GETDNS_LOG_WARNING, GETDNS_LOG_NOTICE, GETDNS_LOG_INFO, GETDNS_LOG_DEBUG]"

text \<open>The calls of the installer and the uninstaller that create or delete an entry.\<close>

fun creates_eventlog_key :: "call \<Rightarrow> bool" where
  "creates_eventlog_key (RegCreateKeyEx path access) = (path = eventlog_service_key)"
| "creates_eventlog_key _ = False"

fun creates_service :: "call \<Rightarrow> bool" where
  "creates_service (CreateService name display cmd) = True"
| "creates_service _ = False"

fun deletes_service :: "call \<Rightarrow> bool" where
  "deletes_service DeleteService = True"
| "deletes_service _ = False"

fun deletes_eventlog_key :: "call \<Rightarrow> bool" where
  "deletes_eventlog_key (RegDeleteKey name) = True"
| "deletes_eventlog_key _ = False"

text \<open>The two ways in which the registry and the service database can disagree.\<close>

definition eventlog_without_service :: "system \<Rightarrow> bool" where
  "eventlog_without_service y = (eventlog_key y \<noteq> None \<and> service y = None)"

definition service_without_eventlog :: "system \<Rightarrow> bool" where
  "service_without_eventlog y = (service y \<noteq> None \<and> eventlog_key y = None)"

text \<open>The five commands, and the test of the dispatcher for a token.\<close>

definition commands :: "string list" where
  "commands = [''install'', ''remove'', ''service'', ''start'', ''stop'']"

definition recognised :: "string \<Rightarrow> bool" where
  "recognised arg = list_ex (\<lambda>c. lstrcmpi arg c = 0) commands"

text \<open>No call whose result a command checks reports a failure, and the dispatcher returns.\<close>

definition no_os_failure :: "cli_env \<Rightarrow> bool" where
  "no_os_failure env =
     (GetModuleFileName_r env \<noteq> None \<and> RegCreateKeyEx_r env = ERROR_SUCCESS
      \<and> list_all (\<lambda>name. RegSetValueEx_r env name = ERROR_SUCCESS)
           [''EventMessageFile'', ''CategoryMessageFile'', ''TypesSupported'', ''CategoryCount'']
      \<and> RegDeleteKey_r env = ERROR_SUCCESS \<and> OpenSCManager_r env \<noteq> None
      \<and> CreateService_r env \<noteq> None \<and> OpenService_r env \<noteq> None \<and> DeleteService_r env
      \<and> StartService_r env \<and> ControlService_r env
      \<and> StartServiceCtrlDispatcher_r env = Some True)"

section \<open>Sample inputs\<close>

text \<open>
  A pass of the loop in which nothing happens, and one before which the service control
  manager delivers a stop request.
\<close>

definition idle :: tick where
  "idle = \<lparr>controls = [], wait_fails = False\<rparr>"

definition stop_request :: tick where
  "stop_request = \<lparr>controls = [SERVICE_CONTROL_STOP], wait_fails = False\<rparr>"

text \<open>An environment in which every call of the start-up succeeds.\<close>

definition healthy :: "tick list \<Rightarrow> svc_env" where
  "healthy ts =
     \<lparr> GetLastError_r = 5, FormatMessage_r = (\<lambda>err. None),
       RegisterServiceCtrlHandler_r = Some 1, CreateEvent_r = Some 2,
       getdns_context_create_r = 0, read_config_r = (1, 1), server_listen_r = (\<lambda>flag. 1),
       getdns_context_get_eventloop_r = 0,
       stubby_getdns_strerror_r = (\<lambda>r. ''Generic error''), ticks = ts \<rparr>"

text \<open>The state of a service that has started and is about to poll for the first time.\<close>

definition in_loop :: svc_state where
  "in_loop = outcome_state (SvcMain (healthy []) [] svc_start)"

text \<open>
  An event log whose registration returns \<open>h\<close>, with the identifiers numbered from 1 in
  the order of the severities.
\<close>

definition sample_event_id :: "svc_message \<Rightarrow> DWORD" where
  "sample_event_id m =
     (case m of SVC_EMERGENCY \<Rightarrow> 1 | SVC_ALERT \<Rightarrow> 2 | SVC_CRITICAL \<Rightarrow> 3 | SVC_ERROR \<Rightarrow> 4
      | SVC_WARNING \<Rightarrow> 5 | SVC_NOTICE \<Rightarrow> 6 | SVC_INFO \<Rightarrow> 7 | SVC_DEBUG \<Rightarrow> 8)"

definition event_log :: "HANDLE \<Rightarrow> log_env" where
  "event_log h =
     \<lparr> GetLastError_r = 0, FormatMessage_r = (\<lambda>err. None),
       RegisterEventSource_r = h, event_id = sample_event_id \<rparr>"

text \<open>
  A machine on which the service was never installed, an operating system on which every
  call succeeds, and the machine after an installation there.
\<close>

definition fresh :: cli_state where
  "fresh = \<lparr>trace = [], sys = \<lparr>eventlog_key = None, service = None\<rparr>\<rparr>"

definition cli_ok :: cli_env where
  "cli_ok =
     \<lparr> GetLastError_r = 5, FormatMessage_r = (\<lambda>err. None),
       GetModuleFileName_r = Some ''C:/stubby/stubby.exe'',
       RegCreateKeyEx_r = 0, RegSetValueEx_r = (\<lambda>name. 0), RegDeleteKey_r = 0,
       OpenSCManager_r = Some 1, CreateService_r = Some 2, OpenService_r = Some 3,
       DeleteService_r = True, ChangeServiceConfig2_r = True, StartService_r = True,
       ControlService_r = True, StartServiceCtrlDispatcher_r = Some True \<rparr>"

definition installed :: cli_state where
  "installed = \<lparr>trace = [], sys = sys (flow_state (SvcInstall cli_ok fresh))\<rparr>"

section \<open>Basic facts\<close>

lemmas svc_consts =
  SERVICE_STOPPED_def SERVICE_START_PENDING_def SERVICE_STOP_PENDING_def
  SERVICE_RUNNING_def SERVICE_ACCEPT_STOP_def SERVICE_WIN32_OWN_PROCESS_def
  SERVICE_CONTROL_STOP_def SERVICE_CONTROL_INTERROGATE_def

lemmas wait_consts = WAIT_OBJECT_0_def WAIT_ABANDONED_def WAIT_TIMEOUT_def WAIT_FAILED_def

lemma trace_emit [simp]: "trace (emit c s) = trace s @ [c]"
  by (simp add: emit_def)

lemma emit_fields [simp]:
  "gSvcStatus (emit c s) = gSvcStatus s"
  "gSvcStatusHandle (emit c s) = gSvcStatusHandle s"
  "ghSvcStopEvent (emit c s) = ghSvcStopEvent s"
  "dnssec_validation (emit c s) = dnssec_validation s"
  "dwCheckPoint_static (emit c s) = dwCheckPoint_static s"
  "stop_event_signaled (emit c s) = stop_event_signaled s"
  "sys (emit c t) = sys t"
  by (simp_all add: emit_def)

lemma ReportSvcStatus_trace [simp]:
  "trace (ReportSvcStatus a b c s) = trace s @ [SetServiceStatus (gSvcStatus (ReportSvcStatus a b c s))]"
  by (simp add: ReportSvcStatus_def Let_def split: prod.splits)

lemma ReportSvcStatus_fields [simp]:
  "gSvcStatusHandle (ReportSvcStatus a b c s) = gSvcStatusHandle s"
  "ghSvcStopEvent (ReportSvcStatus a b c s) = ghSvcStopEvent s"
  "dnssec_validation (ReportSvcStatus a b c s) = dnssec_validation s"
  "stop_event_signaled (ReportSvcStatus a b c s) = stop_event_signaled s"
  "dwCheckPoint_static (ReportSvcStatus a b c s) =
     (if a = SERVICE_RUNNING \<or> a = SERVICE_STOPPED then dwCheckPoint_static s
      else dwCheckPoint_static s + 1)"
  by (simp_all add: ReportSvcStatus_def Let_def split: prod.splits)

lemma ReportSvcStatus_status [simp]:
  "dwCurrentState (gSvcStatus (ReportSvcStatus a b c s)) = a"
  "dwWin32ExitCode (gSvcStatus (ReportSvcStatus a b c s)) = b"
  "dwWaitHint (gSvcStatus (ReportSvcStatus a b c s)) = c"
  "dwControlsAccepted (gSvcStatus (ReportSvcStatus a b c s)) =
     (if a = SERVICE_START_PENDING then 0 else SERVICE_ACCEPT_STOP)"
  "dwCheckPoint (gSvcStatus (ReportSvcStatus a b c s)) =
     (if a = SERVICE_RUNNING \<or> a = SERVICE_STOPPED then 0 else dwCheckPoint_static s)"
  "dwServiceType (gSvcStatus (ReportSvcStatus a b c s)) = dwServiceType (gSvcStatus s)"
  "dwServiceSpecificExitCode (gSvcStatus (ReportSvcStatus a b c s)) =
     dwServiceSpecificExitCode (gSvcStatus s)"
  by (simp_all add: ReportSvcStatus_def Let_def split: prod.splits)


lemma report_winerr_trace:
  "\<exists>f as. trace (report_winerr env operation s) = trace s @ [stubby_error f as]"
  by (simp add: report_winerr_def Let_def split: option.splits)

lemma report_winerr_fields [simp]:
  "sys (report_winerr env operation t) = sys t"
  "gSvcStatus (report_winerr env operation s) = gSvcStatus s"
  "gSvcStatusHandle (report_winerr env operation s) = gSvcStatusHandle s"
  "ghSvcStopEvent (report_winerr env operation s) = ghSvcStopEvent s"
  "dnssec_validation (report_winerr env operation s) = dnssec_validation s"
  "dwCheckPoint_static (report_winerr env operation s) = dwCheckPoint_static s"
  "stop_event_signaled (report_winerr env operation s) = stop_event_signaled s"
  by (simp_all add: report_winerr_def Let_def split: option.splits)

lemma SvcCtrlHandler_trace:
  "trace (SvcCtrlHandler c s) =
     (if c = SERVICE_CONTROL_STOP
      then trace s @ [SetServiceStatus (gSvcStatus (ReportSvcStatus SERVICE_STOP_PENDING 0 0 s)),
                      SetEvent (ghSvcStopEvent s)]
      else trace s)"
  by (simp add: SvcCtrlHandler_def SetEvent_call_def)

lemma SvcCtrlHandler_fields [simp]:
  "gSvcStatusHandle (SvcCtrlHandler c s) = gSvcStatusHandle s"
  "ghSvcStopEvent (SvcCtrlHandler c s) = ghSvcStopEvent s"
  "dnssec_validation (SvcCtrlHandler c s) = dnssec_validation s"
  by (simp_all add: SvcCtrlHandler_def SetEvent_call_def)

lemma SvcCtrlHandler_signaled:
  "stop_event_signaled (SvcCtrlHandler c s) =
     (stop_event_signaled s \<or> (c = SERVICE_CONTROL_STOP \<and> ghSvcStopEvent s \<noteq> None))"
  by (simp add: SvcCtrlHandler_def SetEvent_call_def)

lemma handlers_fields [simp]:
  "gSvcStatusHandle (foldl (\<lambda>s c. SvcCtrlHandler c s) s cs) = gSvcStatusHandle s"
  "ghSvcStopEvent (foldl (\<lambda>s c. SvcCtrlHandler c s) s cs) = ghSvcStopEvent s"
  "dnssec_validation (foldl (\<lambda>s c. SvcCtrlHandler c s) s cs) = dnssec_validation s"
  by (induction cs arbitrary: s) simp_all

lemma handlers_ext:
  "\<exists>ext. trace (foldl (\<lambda>s c. SvcCtrlHandler c s) s cs) = trace s @ ext \<and> list_all loop_call ext"
proof (induction cs arbitrary: s)
  case Nil
  show ?case by simp
next
  case (Cons c cs)
  obtain ext where
    ext: "trace (foldl (\<lambda>s c. SvcCtrlHandler c s) (SvcCtrlHandler c s) cs) =
            trace (SvcCtrlHandler c s) @ ext" "list_all loop_call ext"
    using Cons.IH by blast
  show ?case
  proof (cases "c = SERVICE_CONTROL_STOP")
    case True
    then show ?thesis using ext by (simp add: SvcCtrlHandler_trace)
  next
    case False
    then show ?thesis using ext by (simp add: SvcCtrlHandler_trace)
  qed
qed

lemma wait_switch_ext:
  "\<exists>ext. trace (snd (wait_switch env r s)) = trace s @ ext \<and> list_all loop_call ext"
  using report_winerr_trace [of env "''WaitForSingleObject''" s]
  by (auto simp: wait_switch_def)

lemma wait_switch_fields [simp]:
  "gSvcStatusHandle (snd (wait_switch env r s)) = gSvcStatusHandle s"
  "ghSvcStopEvent (snd (wait_switch env r s)) = ghSvcStopEvent s"
  "dnssec_validation (snd (wait_switch env r s)) = dnssec_validation s"
  by (simp_all add: wait_switch_def)

lemma run_loop_ext:
  "\<exists>ext. trace (outcome_state (run_loop env ts s)) = trace s @ ext \<and> list_all loop_call ext"
proof (induction ts arbitrary: s)
  case Nil
  show ?case by simp
next
  case (Cons t ts)
  define s1 where "s1 = foldl (\<lambda>s c. SvcCtrlHandler c s) s (controls t)"
  define s2 where "s2 = emit (WaitForSingleObject (ghSvcStopEvent s1) 0) s1"
  define r where "r = WaitForSingleObject_r (wait_fails t) (stop_event_signaled s1)"
  define s3 where "s3 = snd (wait_switch env r s2)"
  obtain e1 where e1: "trace s1 = trace s @ e1" "list_all loop_call e1"
    unfolding s1_def using handlers_ext by blast
  obtain e3 where e3: "trace s3 = trace s2 @ e3" "list_all loop_call e3"
    unfolding s3_def using wait_switch_ext by blast
  have t3: "trace s3 = trace s @ (e1 @ WaitForSingleObject (ghSvcStopEvent s1) 0 # e3)"
    using e1 e3 by (simp add: s2_def)
  obtain e4 where e4: "trace (outcome_state (run_loop env ts (emit (run_once 1) s3))) =
      trace (emit (run_once 1) s3) @ e4" "list_all loop_call e4"
    using Cons.IH by blast
  have unfold: "run_loop env (t # ts) s =
      (if fst (wait_switch env r s2) = 0 then Returned s3
       else run_loop env ts (emit (run_once 1) s3))"
    by (simp add: s1_def s2_def s3_def r_def Let_def split: prod.splits)
  show ?case
  proof (cases "fst (wait_switch env r s2) = 0")
    case True
    then show ?thesis using unfold t3 e1 e3 by simp
  next
    case False
    then have "trace (outcome_state (run_loop env (t # ts) s)) =
        trace s @ (e1 @ WaitForSingleObject (ghSvcStopEvent s1) 0 # e3 @ run_once 1 # e4)"
      using unfold t3 e4 by simp
    moreover have "list_all loop_call (e1 @ WaitForSingleObject (ghSvcStopEvent s1) 0 # e3 @ run_once 1 # e4)"
      using e1 e3 e4 by simp
    ultimately show ?thesis by blast
  qed
qed

lemma run_loop_fields [simp]:
  "gSvcStatusHandle (outcome_state (run_loop env ts s)) = gSvcStatusHandle s"
  "ghSvcStopEvent (outcome_state (run_loop env ts s)) = ghSvcStopEvent s"
  "dnssec_validation (outcome_state (run_loop env ts s)) = dnssec_validation s"
  by (induction ts arbitrary: s; simp add: Let_def split: prod.splits
      ; metis wait_switch_fields snd_conv emit_fields handlers_fields)+


lemma in_loop_handle: "ghSvcStopEvent in_loop = Some 2"
  unfolding in_loop_def by code_simp

lemma in_loop_unsignaled: "\<not> stop_event_signaled in_loop"
  unfolding in_loop_def by code_simp

section \<open>The control handler\<close>

text \<open>
  Claim C4. Whatever control code the handler receives, it makes no tear-down call (it
  neither destroys the context, nor releases the configuration, nor closes a handle) and
  leaves the stop-event handle in place. On \<^verbatim>\<open>SERVICE_CONTROL_STOP\<close> its only calls are
  the report of \<^verbatim>\<open>SERVICE_STOP_PENDING\<close> and \<^verbatim>\<open>SetEvent\<close> on the stop event, which
  becomes signaled when the handle is valid. On every other code, interrogate included,
  the state of the process is unchanged.
\<close>

theorem SvcCtrlHandler_only_signals:
  "list_all (\<lambda>c. \<not> is_teardown c) (drop (length (trace s)) (trace (SvcCtrlHandler dwCtrl s)))
   \<and> ghSvcStopEvent (SvcCtrlHandler dwCtrl s) = ghSvcStopEvent s
   \<and> (dwCtrl = SERVICE_CONTROL_STOP \<longrightarrow>
        (\<exists>st. trace (SvcCtrlHandler dwCtrl s) =
                 trace s @ [SetServiceStatus st, SetEvent (ghSvcStopEvent s)]
              \<and> dwCurrentState st = SERVICE_STOP_PENDING
              \<and> dwWin32ExitCode st = 0)
        \<and> stop_event_signaled (SvcCtrlHandler dwCtrl s) =
            (stop_event_signaled s \<or> ghSvcStopEvent s \<noteq> None))
   \<and> (dwCtrl \<noteq> SERVICE_CONTROL_STOP \<longrightarrow> SvcCtrlHandler dwCtrl s = s)"
proof (cases "dwCtrl = SERVICE_CONTROL_STOP")
  case True
  then show ?thesis
    by (simp add: SvcCtrlHandler_trace SvcCtrlHandler_signaled)
next
  case False
  then show ?thesis
    by (simp add: SvcCtrlHandler_def)
qed

theorem SvcCtrlHandler_only_signals_witness:
  "(\<exists>st. trace (SvcCtrlHandler SERVICE_CONTROL_STOP in_loop) =
            trace in_loop @ [SetServiceStatus st, SetEvent (Some 2)]
         \<and> dwCurrentState st = SERVICE_STOP_PENDING)
   \<and> stop_event_signaled (SvcCtrlHandler SERVICE_CONTROL_STOP in_loop)
   \<and> SvcCtrlHandler SERVICE_CONTROL_INTERROGATE in_loop = in_loop"
  using SvcCtrlHandler_only_signals [of in_loop SERVICE_CONTROL_STOP]
    SvcCtrlHandler_only_signals [of in_loop SERVICE_CONTROL_INTERROGATE]
  by (auto simp add: in_loop_handle svc_consts)

section \<open>The run loop\<close>

lemma handlers_no_stop:
  "SERVICE_CONTROL_STOP \<notin> set cs \<Longrightarrow> foldl (\<lambda>s c. SvcCtrlHandler c s) s cs = s"
  by (induction cs arbitrary: s) (auto simp: SvcCtrlHandler_def)

lemma handlers_signaled:
  "stop_event_signaled s \<Longrightarrow> stop_event_signaled (foldl (\<lambda>s c. SvcCtrlHandler c s) s cs)"
  by (induction cs arbitrary: s) (simp_all add: SvcCtrlHandler_signaled)

lemma handlers_run_once:
  "count_list (trace (foldl (\<lambda>s c. SvcCtrlHandler c s) s cs)) (run_once n) =
     count_list (trace s) (run_once n)"
  by (induction cs arbitrary: s) (simp_all add: SvcCtrlHandler_trace)

text \<open>
  With the stop event unsignaled and no stop request pending, the first poll returns
  \<^verbatim>\<open>WAIT_TIMEOUT\<close>; the \<^verbatim>\<open>switch\<close> has no case for it, so the default branch ends the
  loop before any iteration of the engine.
\<close>

lemma run_loop_unsignaled_returns:
  assumes "\<not> stop_event_signaled s" "SERVICE_CONTROL_STOP \<notin> set (controls t)" "\<not> wait_fails t"
  shows "run_loop env (t # ts) s =
           Returned (emit (stubby_debug ''Stop object signalled'')
                       (emit (WaitForSingleObject (ghSvcStopEvent s) 0) s))"
  using assms
  by (simp add: handlers_no_stop WaitForSingleObject_r_def wait_switch_def wait_consts)

text \<open>
  Once the stop event is signaled, every poll that does not fail returns
  \<^verbatim>\<open>WAIT_OBJECT_0\<close>, the one result on which the loop goes on: however long the schedule,
  the loop has not returned at its end and has run the engine once per pass.
\<close>

lemma run_loop_signaled_loops:
  assumes "stop_event_signaled s" "list_all (\<lambda>t. \<not> wait_fails t) ts"
  shows "\<not> has_returned (run_loop env ts s)
         \<and> count_list (trace (outcome_state (run_loop env ts s))) (run_once 1) =
             count_list (trace s) (run_once 1) + length ts"
  using assms
proof (induction ts arbitrary: s)
  case Nil
  show ?case by simp
next
  case (Cons t ts)
  define s1 where "s1 = foldl (\<lambda>s c. SvcCtrlHandler c s) s (controls t)"
  define s3 where "s3 = emit (run_once 1) (emit (WaitForSingleObject (ghSvcStopEvent s1) 0) s1)"
  have sig: "stop_event_signaled s1"
    unfolding s1_def using Cons.prems(1) by (rule handlers_signaled)
  have step: "run_loop env (t # ts) s = run_loop env ts s3"
    using sig Cons.prems(2)
    by (simp add: s1_def s3_def WaitForSingleObject_r_def wait_switch_def wait_consts)
  have cnt: "count_list (trace s3) (run_once 1) = Suc (count_list (trace s) (run_once 1))"
    by (simp add: s3_def s1_def handlers_run_once)
  have "stop_event_signaled s3" using sig by (simp add: s3_def)
  moreover have "list_all (\<lambda>t. \<not> wait_fails t) ts" using Cons.prems(2) by simp
  ultimately show ?case using Cons.IH [of s3] step cnt by simp
qed

text \<open>
  Claim C1 says that a poll which finds the stop event unsignaled is followed by exactly one
  \<open>run_once\<close> and another pass, and that a poll which fails or finds the event signaled
  ends the loop. The code does this for a failed poll only. Two runs of the service with
  every start-up call succeeding show the other two cases. In the first the stop event is
  never signaled: the service returns from the loop at its first poll without a single
  \<open>run_once\<close>. In the second a stop request arrives before the first poll and signals the
  event: after three passes the service is still in the loop and has called \<open>run_once\<close>
  three times.
\<close>

theorem run_loop_poll_inverted:
  "has_returned (SvcMain (healthy [idle, idle, idle]) [] svc_start)
   \<and> count_list (trace (outcome_state (SvcMain (healthy [idle, idle, idle]) [] svc_start)))
        (run_once 1) = 0
   \<and> stop_event_signaled
        (outcome_state (SvcMain (healthy [stop_request, idle, idle]) [] svc_start))
   \<and> \<not> has_returned (SvcMain (healthy [stop_request, idle, idle]) [] svc_start)
   \<and> count_list
        (trace (outcome_state (SvcMain (healthy [stop_request, idle, idle]) [] svc_start)))
        (run_once 1) = 3"
  by code_simp

section \<open>Service start-up\<close>

lemma loop_call_not:
  "loop_call c \<Longrightarrow> \<not> is_teardown c \<and> \<not> reports SERVICE_STOPPED c \<and> \<not> reports SERVICE_RUNNING c
     \<and> c \<noteq> server_listen f"
  by (cases c) (simp_all add: reports_def svc_consts)

lemma tidy_and_exit_trace [simp]:
  "trace (tidy_and_exit s) =
     trace s @ [getdns_context_destroy, delete_config, CloseHandle (ghSvcStopEvent s)]"
  by (simp add: tidy_and_exit_def)

lemma tidy_and_exit_fields [simp]:
  "gSvcStatus (tidy_and_exit s) = gSvcStatus s"
  "gSvcStatusHandle (tidy_and_exit s) = gSvcStatusHandle s"
  "ghSvcStopEvent (tidy_and_exit s) = None"
  "dnssec_validation (tidy_and_exit s) = dnssec_validation s"
  "dwCheckPoint_static (tidy_and_exit s) = dwCheckPoint_static s"
  by (simp_all add: tidy_and_exit_def)

lemma report_getdnserr_trace [simp]:
  "trace (report_getdnserr env operation s) =
     trace s @ [stubby_error ''%s: %s'' [ArgS operation, ArgS (stubby_getdns_strerror_r env None)]]"
  by (simp add: report_getdnserr_def)

lemma report_getdnserr_fields [simp]:
  "gSvcStatus (report_getdnserr env operation s) = gSvcStatus s"
  "gSvcStatusHandle (report_getdnserr env operation s) = gSvcStatusHandle s"
  "ghSvcStopEvent (report_getdnserr env operation s) = ghSvcStopEvent s"
  "dnssec_validation (report_getdnserr env operation s) = dnssec_validation s"
  "dwCheckPoint_static (report_getdnserr env operation s) = dwCheckPoint_static s"
  "stop_event_signaled (report_getdnserr env operation s) = stop_event_signaled s"
  by (simp_all add: report_getdnserr_def)

lemma run_loop_outcome:
  assumes "run_loop env ts s = Returned s' \<or> run_loop env ts s = Looping s'"
  shows "\<exists>ext. trace s' = trace s @ ext \<and> list_all loop_call ext"
    and "ghSvcStopEvent s' = ghSvcStopEvent s"
    and "dnssec_validation s' = dnssec_validation s"
    and "gSvcStatusHandle s' = gSvcStatusHandle s"
proof -
  have s': "s' = outcome_state (run_loop env ts s)"
    using assms by auto
  show "\<exists>ext. trace s' = trace s @ ext \<and> list_all loop_call ext"
    unfolding s' by (rule run_loop_ext)
  show "ghSvcStopEvent s' = ghSvcStopEvent s" "dnssec_validation s' = dnssec_validation s"
    "gSvcStatusHandle s' = gSvcStatusHandle s"
    unfolding s' by simp_all
qed

lemma run_loop_listen:
  assumes "run_loop env ts s = Returned s' \<or> run_loop env ts s = Looping s'"
    and "server_listen f \<in> set (trace s')"
  shows "server_listen f \<in> set (trace s)"
proof -
  obtain ext where ext: "trace s' = trace s @ ext" "list_all loop_call ext"
    using run_loop_outcome(1) [OF assms(1)] by blast
  have "server_listen f \<notin> set ext"
    using ext(2) loop_call_not by (auto simp: list_all_iff)
  then show ?thesis using ext(1) assms(2) by simp
qed

lemmas run_loop_listen_Returned = run_loop_listen [OF disjI1]
lemmas run_loop_listen_Looping = run_loop_listen [OF disjI2]
lemmas run_loop_Returned = run_loop_outcome [OF disjI1]
lemmas run_loop_Looping = run_loop_outcome [OF disjI2]

lemma report_winerr_mem:
  "c \<in> set (trace (report_winerr env operation s)) \<Longrightarrow>
     c \<in> set (trace s) \<or> (\<exists>f as. c = stubby_error f as)"
  using report_winerr_trace [of env operation s] by auto

lemma SvcInit_listen:
  "server_listen f \<in> set (trace (outcome_state (SvcInit env argv s))) \<Longrightarrow>
     server_listen f \<in> set (trace s) \<or> f = dnssec_validation s"
  unfolding SvcInit_def Let_def
  by (auto split: if_splits outcome.splits
      dest!: run_loop_listen_Returned run_loop_listen_Looping)

lemma SvcInit_dnssec:
  "dnssec_validation (outcome_state (SvcInit env argv s)) = dnssec_validation s"
  unfolding SvcInit_def Let_def
  by (auto split: if_splits outcome.splits
      dest!: run_loop_Returned(3) run_loop_Looping(3))

lemma SvcInit_validate_unused:
  "SvcInit (env\<lparr>read_config_r := (fst (read_config_r env), v)\<rparr>) argv s = SvcInit env argv s"
proof -
  have "run_loop (env\<lparr>read_config_r := (fst (read_config_r env), v)\<rparr>) ts s' = run_loop env ts s'"
    for ts s'
    by (induction ts arbitrary: s')
       (simp_all add: wait_switch_def report_winerr_def Let_def)
  then show ?thesis
    by (simp add: SvcInit_def report_getdnserr_def Let_def)
qed

text \<open>
  Claim C5. The flag that \<open>SvcInit\<close> passes to \<^verbatim>\<open>server_listen\<close> is the global
  \<open>dnssec_validation\<close>. The global is 0 when the process starts and no function of the
  service assigns it, so in every run of the service every call of \<^verbatim>\<open>server_listen\<close>
  carries the flag 0. The value that \<^verbatim>\<open>read_config\<close> stores in \<^verbatim>\<open>validate_dnssec\<close>
  has no influence on the run.
\<close>

theorem server_listen_flag_is_zero:
  "(server_listen f \<in> set (trace (outcome_state (SvcMain env argv svc_start))) \<longrightarrow> f = 0)
   \<and> dnssec_validation svc_start = 0
   \<and> dnssec_validation (outcome_state (SvcMain env argv s)) = dnssec_validation s
   \<and> dnssec_validation (SvcCtrlHandler dwCtrl s) = dnssec_validation s
   \<and> SvcMain (env\<lparr>read_config_r := (fst (read_config_r env), v)\<rparr>) argv s = SvcMain env argv s"
proof -
  have a: "server_listen f \<in> set (trace (outcome_state (SvcMain env argv svc_start))) \<longrightarrow> f = 0"
    unfolding SvcMain_def Let_def
    by (auto dest!: SvcInit_listen report_winerr_mem simp: svc_start_def split: if_splits)
  have b: "dnssec_validation (outcome_state (SvcMain env argv s)) = dnssec_validation s"
    unfolding SvcMain_def Let_def by (simp add: SvcInit_dnssec)
  have c: "SvcMain (env\<lparr>read_config_r := (fst (read_config_r env), v)\<rparr>) argv s = SvcMain env argv s"
    unfolding SvcMain_def Let_def by (simp add: SvcInit_validate_unused report_winerr_def)
  show ?thesis using a b c by (simp add: svc_start_def)
qed

theorem server_listen_flag_is_zero_witness:
  "server_listen 0 \<in> set (trace (outcome_state (SvcMain (healthy [idle]) [] svc_start)))
   \<and> server_listen 1 \<notin> set (trace (outcome_state (SvcMain (healthy [idle]) [] svc_start)))
   \<and> read_config_r (healthy [idle]) = (1, 1)"
proof -
  have "server_listen 0 \<in> set (trace (outcome_state (SvcMain (healthy [idle]) [] svc_start)))"
    by code_simp
  moreover have "read_config_r (healthy [idle]) = (1, 1)"
    by (simp add: healthy_def)
  ultimately show ?thesis
    using server_listen_flag_is_zero [of 0 "healthy [idle]" "[]"]
      server_listen_flag_is_zero [of 1 "healthy [idle]" "[]"] by auto
qed

section \<open>Check points\<close>

lemma statuses_append [simp]: "statuses (xs @ ys) = statuses xs @ statuses ys"
  by (induction xs) (simp_all split: option.splits)

lemma pending_reports_append [simp]:
  "pending_reports (xs @ ys) = pending_reports xs @ pending_reports ys"
  by (simp add: pending_reports_def)

lemma pending_reports_single:
  "pending_reports [c] =
     (case status_of c of None \<Rightarrow> [] | Some st \<Rightarrow> if steady st then [] else [st])"
  by (simp add: pending_reports_def split: option.splits)

lemma checkpoint_inv_ReportSvcStatus:
  assumes "checkpoint_inv s"
  shows "checkpoint_inv (ReportSvcStatus a b c s)"
proof -
  define st where "st = gSvcStatus (ReportSvcStatus a b c s)"
  define n where "n = length (pending_reports (trace s))"
  have inv: "map dwCheckPoint (pending_reports (trace s)) = map of_nat [1..<Suc n]"
    "dwCheckPoint_static s = of_nat (Suc n)"
    "list_all (\<lambda>st. steady st \<longrightarrow> dwCheckPoint st = 0) (statuses (trace s))"
    using assms by (simp_all add: checkpoint_inv_def n_def Let_def)
  have st: "steady st \<longleftrightarrow> a = SERVICE_RUNNING \<or> a = SERVICE_STOPPED"
    "dwCheckPoint st = (if steady st then 0 else of_nat (Suc n))"
    by (simp_all add: st_def steady_def inv(2))
  show ?thesis
  proof (cases "steady st")
    case True
    then show ?thesis
      using inv st unfolding checkpoint_inv_def
      by (simp add: st_def [symmetric] n_def [symmetric] pending_reports_single Let_def)
  next
    case False
    then show ?thesis
      using inv st unfolding checkpoint_inv_def
      by (simp add: st_def [symmetric] n_def [symmetric] pending_reports_single Let_def)
  qed
qed


lemma checkpoint_inv_emit:
  "status_of c = None \<Longrightarrow> checkpoint_inv (emit c s) = checkpoint_inv s"
  by (simp add: checkpoint_inv_def pending_reports_single)

lemma checkpoint_inv_update [simp]:
  "checkpoint_inv (s\<lparr>ghSvcStopEvent := h\<rparr>) = checkpoint_inv s"
  "checkpoint_inv (s\<lparr>stop_event_signaled := x\<rparr>) = checkpoint_inv s"
  "checkpoint_inv (s\<lparr>gSvcStatusHandle := h\<rparr>) = checkpoint_inv s"
  "checkpoint_inv (s\<lparr>gSvcStatus := g\<rparr>) = checkpoint_inv s"
  by (simp_all add: checkpoint_inv_def)

lemma checkpoint_inv_report_winerr [simp]:
  "checkpoint_inv (report_winerr env operation s) = checkpoint_inv s"
  by (simp add: report_winerr_def Let_def checkpoint_inv_emit split: option.splits)

lemma checkpoint_inv_report_getdnserr [simp]:
  "checkpoint_inv (report_getdnserr env operation s) = checkpoint_inv s"
  by (simp add: report_getdnserr_def checkpoint_inv_emit)

lemma checkpoint_inv_tidy [simp]:
  "checkpoint_inv (tidy_and_exit s) = checkpoint_inv s"
  by (simp add: tidy_and_exit_def Let_def checkpoint_inv_emit)

lemma checkpoint_inv_handler:
  "checkpoint_inv s \<Longrightarrow> checkpoint_inv (SvcCtrlHandler c s)"
  by (simp add: SvcCtrlHandler_def SetEvent_call_def checkpoint_inv_emit
      checkpoint_inv_ReportSvcStatus)

lemma checkpoint_inv_handlers:
  "checkpoint_inv s \<Longrightarrow> checkpoint_inv (foldl (\<lambda>s c. SvcCtrlHandler c s) s cs)"
  by (induction cs arbitrary: s) (simp_all add: checkpoint_inv_handler)

lemma checkpoint_inv_run_loop:
  "checkpoint_inv s \<Longrightarrow> checkpoint_inv (outcome_state (run_loop env ts s))"
proof (induction ts arbitrary: s)
  case Nil
  then show ?case by simp
next
  case (Cons t ts)
  define s1 where "s1 = foldl (\<lambda>s c. SvcCtrlHandler c s) s (controls t)"
  define s2 where "s2 = emit (WaitForSingleObject (ghSvcStopEvent s1) 0) s1"
  define r where "r = WaitForSingleObject_r (wait_fails t) (stop_event_signaled s1)"
  define s3 where "s3 = snd (wait_switch env r s2)"
  have "checkpoint_inv s2"
    unfolding s2_def s1_def using Cons.prems
    by (simp add: checkpoint_inv_emit checkpoint_inv_handlers)
  then have s3: "checkpoint_inv s3"
    by (simp add: s3_def wait_switch_def checkpoint_inv_emit)
  then have "checkpoint_inv (emit (run_once 1) s3)"
    by (simp add: checkpoint_inv_emit)
  then have rest: "checkpoint_inv (outcome_state (run_loop env ts (emit (run_once 1) s3)))"
    by (rule Cons.IH)
  have "run_loop env (t # ts) s =
      (if fst (wait_switch env r s2) = 0 then Returned s3
       else run_loop env ts (emit (run_once 1) s3))"
    by (simp add: s1_def s2_def s3_def r_def Let_def split: prod.splits)
  then show ?case using s3 rest by simp
qed

lemma outcome_case_state:
  "outcome_state (case r of Looping s' \<Rightarrow> Looping s' | Returned s' \<Rightarrow> Returned (g s')) =
     (if has_returned r then g (outcome_state r) else outcome_state r)"
  by (cases r) simp_all

lemma outcome_case_returned:
  "has_returned (case r of Looping s' \<Rightarrow> Looping s' | Returned s' \<Rightarrow> Returned (g s')) =
     has_returned r"
  by (cases r) simp_all

lemma checkpoint_inv_SvcInit:
  "checkpoint_inv s \<Longrightarrow> checkpoint_inv (outcome_state (SvcInit env argv s))"
  by (simp add: SvcInit_def Let_def outcome_case_state checkpoint_inv_emit
      checkpoint_inv_ReportSvcStatus checkpoint_inv_run_loop)

lemma checkpoint_inv_start: "checkpoint_inv svc_start"
  by (simp add: checkpoint_inv_def svc_start_def pending_reports_def)

lemma checkpoint_inv_SvcMain:
  "checkpoint_inv s \<Longrightarrow> checkpoint_inv (outcome_state (SvcMain env argv s))"
  by (simp add: SvcMain_def Let_def checkpoint_inv_emit
      checkpoint_inv_ReportSvcStatus checkpoint_inv_SvcInit)

lemma of_nat_upt_sorted:
  assumes "n < 2 ^ 32"
  shows "sorted_wrt (<) (map of_nat [1..<Suc n] :: 32 word list)"
proof -
  have "(of_nat i :: 32 word) < of_nat j" if "i < j" "j \<le> n" for i j
  proof -
    have "i < 2 ^ 32" "j < 2 ^ 32" using that assms by simp_all
    then show ?thesis
      using that(1) by (simp add: word_of_nat_less_iff take_bit_nat_eq_self)
  qed
  then have "sorted_wrt (\<lambda>i j. (of_nat i :: 32 word) < of_nat j) [1..<Suc n]"
    by (intro sorted_wrt_mono_rel [OF _ sorted_wrt_upt]) auto
  then show ?thesis
    by (simp only: sorted_wrt_map)
qed

lemma of_nat_upt_nonzero:
  assumes "n < 2 ^ 32" "w \<in> set (map of_nat [1..<Suc n] :: 32 word list)"
  shows "w \<noteq> 0"
proof -
  obtain k where k: "w = of_nat k" "1 \<le> k" "k \<le> n"
    using assms(2) by auto
  have "\<not> (2 :: nat) ^ 32 dvd k"
    using k(2,3) assms(1) by (auto dest: dvd_imp_le)
  then show ?thesis
    by (simp add: k(1) word_of_nat_eq_0_iff)
qed

text \<open>
  Claim C6. Take any run of the service from process start, with the reports of the
  control handler included. A reported check point is 0 exactly when the reported state
  is \<^verbatim>\<open>SERVICE_RUNNING\<close> or \<^verbatim>\<open>SERVICE_STOPPED\<close>, and the check points of the other
  reports are 1, 2, 3, ... in the order of the reports, hence strictly increasing. The
  counter is a \<^verbatim>\<open>DWORD\<close>; the statement is for runs with fewer than \<open>2 ^ 32\<close> such
  reports, of which the start-up makes at most five and each stop request one.
\<close>

theorem checkpoints_count_pending_reports:
  assumes "length (pending_reports (trace (outcome_state (SvcMain env argv svc_start)))) < 2 ^ 32"
  shows "(\<forall>st \<in> set (statuses (trace (outcome_state (SvcMain env argv svc_start)))).
            dwCheckPoint st = 0 \<longleftrightarrow> steady st)
         \<and> sorted_wrt (<)
             (map dwCheckPoint (pending_reports (trace (outcome_state (SvcMain env argv svc_start)))))
         \<and> map dwCheckPoint (pending_reports (trace (outcome_state (SvcMain env argv svc_start)))) =
             map of_nat
               [1..<Suc (length (pending_reports (trace (outcome_state (SvcMain env argv svc_start)))))]"
proof -
  define tr where "tr = trace (outcome_state (SvcMain env argv svc_start))"
  define n where "n = length (pending_reports tr)"
  have "checkpoint_inv (outcome_state (SvcMain env argv svc_start))"
    using checkpoint_inv_start by (rule checkpoint_inv_SvcMain)
  then have cps: "map dwCheckPoint (pending_reports tr) = map of_nat [1..<Suc n]"
    and zero: "list_all (\<lambda>st. steady st \<longrightarrow> dwCheckPoint st = 0) (statuses tr)"
    by (simp_all add: checkpoint_inv_def tr_def n_def Let_def)
  have n: "n < 2 ^ 32" using assms by (simp add: n_def tr_def)
  have sorted: "sorted_wrt (<) (map dwCheckPoint (pending_reports tr))"
    unfolding cps using n by (rule of_nat_upt_sorted)
  have "dwCheckPoint st = 0 \<longleftrightarrow> steady st" if st: "st \<in> set (statuses tr)" for st
  proof (cases "steady st")
    case True
    then show ?thesis using zero st by (simp add: list_all_iff)
  next
    case False
    then have "st \<in> set (pending_reports tr)"
      using st by (simp add: pending_reports_def)
    then have "dwCheckPoint st \<in> set (map of_nat [1..<Suc n] :: 32 word list)"
      unfolding cps [symmetric] by simp
    then have "dwCheckPoint st \<noteq> 0" using n of_nat_upt_nonzero by blast
    then show ?thesis using False by simp
  qed
  then show ?thesis using sorted cps by (simp add: tr_def n_def)
qed

theorem checkpoints_count_pending_reports_witness:
  "length (pending_reports
     (trace (outcome_state (SvcMain (healthy [stop_request, idle]) [] svc_start)))) = 6
   \<and> list_all (\<lambda>st. (dwCheckPoint st = 0) = steady st)
        (statuses (trace (outcome_state (SvcMain (healthy [stop_request, idle]) [] svc_start))))
   \<and> sorted_wrt (<) (map dwCheckPoint (pending_reports
         (trace (outcome_state (SvcMain (healthy [stop_request, idle]) [] svc_start)))))"
proof -
  have len: "length (pending_reports
      (trace (outcome_state (SvcMain (healthy [stop_request, idle]) [] svc_start)))) = 6"
    by code_simp
  then have "length (pending_reports
      (trace (outcome_state (SvcMain (healthy [stop_request, idle]) [] svc_start)))) < 2 ^ 32"
    by simp
  from checkpoints_count_pending_reports [OF this] len show ?thesis
    unfolding list_all_iff by blast
qed

section \<open>Start-up failures and tear-down\<close>

lemma trace_run_loop:
  "trace (outcome_state (run_loop env ts s)) = trace s @ loop_calls env ts s"
  using run_loop_ext [of env ts s] by (auto simp: new_calls_def loop_calls_def)

lemma loop_calls_all: "list_all loop_call (loop_calls env ts s)"
  using run_loop_ext [of env ts s] by (auto simp: new_calls_def loop_calls_def)

lemma loop_calls_not [simp]:
  "\<not> list_ex is_teardown (loop_calls env ts s)"
  "\<not> list_ex (reports SERVICE_STOPPED) (loop_calls env ts s)"
  "\<not> list_ex (reports SERVICE_RUNNING) (loop_calls env ts s)"
  using loop_calls_all [of env ts s] loop_call_not
  by (auto simp: list_all_iff list_ex_iff)

lemma reports_simps [simp]:
  "reports x (SetServiceStatus st) = (dwCurrentState st = x)"
  "reports x CreateEvent = False"
  "reports x stubby_set_log_funcs = False"
  "reports x RegisterServiceCtrlHandler = False"
  "reports x (CloseHandle h) = False"
  "reports x getdns_context_create = False"
  "reports x (stubby_set_getdns_logging n) = False"
  "reports x init_config = False"
  "reports x read_config = False"
  "reports x (server_listen f) = False"
  "reports x getdns_context_get_eventloop = False"
  "reports x getdns_context_destroy = False"
  "reports x delete_config = False"
  "reports x (stubby_error fmt as) = False"
  by (simp_all add: reports_def)

lemma until_stopped_simps [simp]:
  "until_stopped [] = []"
  "until_stopped (c # cs) = (if reports SERVICE_STOPPED c then [] else c # until_stopped cs)"
  by (simp_all add: until_stopped_def)

lemma until_stopped_append:
  "\<not> list_ex (reports SERVICE_STOPPED) xs \<Longrightarrow> until_stopped (xs @ ys) = xs @ until_stopped ys"
  by (simp add: until_stopped_def list_ex_iff takeWhile_append2)

lemma new_calls_append [simp]: "trace s' = trace s @ cs \<Longrightarrow> new_calls s s' = cs"
  by (simp add: new_calls_def)

text \<open>
  Claim C3, as the code has it. Let the stop event be created and one of the four later
  checks fail (creation of the context, reading of the configuration, set-up of the
  listeners, retrieval of the event loop). Then \<open>SvcInit\<close> returns to its caller, and
  the calls it has made are: calls that neither tear anything down nor report
  \<^verbatim>\<open>SERVICE_RUNNING\<close> or \<^verbatim>\<open>SERVICE_STOPPED\<close>; then one report of \<^verbatim>\<open>SERVICE_STOPPED\<close>
  with exit code 1; then the tear-down, each step once. After a failed creation of the
  context the tear-down is the closing of the stop handle alone; after the three other
  failures it is the shared path: destroy the context, release the configuration, close
  the stop handle.
\<close>

theorem startup_failure_teardown:
  assumes "CreateEvent_r env = Some h" and "startup_fails env (dnssec_validation s)"
  shows "has_returned (SvcInit env argv s)
    \<and> new_calls s (outcome_state (SvcInit env argv s)) =
        until_stopped (new_calls s (outcome_state (SvcInit env argv s)))
        @ SetServiceStatus (gSvcStatus (outcome_state (SvcInit env argv s)))
        # (if getdns_context_create_r env \<noteq> 0 then [CloseHandle (Some h)]
           else [getdns_context_destroy, delete_config, CloseHandle (Some h)])
    \<and> dwCurrentState (gSvcStatus (outcome_state (SvcInit env argv s))) = SERVICE_STOPPED
    \<and> dwWin32ExitCode (gSvcStatus (outcome_state (SvcInit env argv s))) = 1
    \<and> \<not> list_ex is_teardown (until_stopped (new_calls s (outcome_state (SvcInit env argv s))))
    \<and> \<not> list_ex (reports SERVICE_RUNNING)
          (until_stopped (new_calls s (outcome_state (SvcInit env argv s))))
    \<and> ghSvcStopEvent (outcome_state (SvcInit env argv s)) = None"
  using assms unfolding startup_fails_def
  by (auto simp add: SvcInit_def Let_def svc_consts)

theorem startup_failure_teardown_witness:
  "CreateEvent_r ((healthy [])\<lparr>read_config_r := (0, 0)\<rparr>) = Some 2
   \<and> startup_fails ((healthy [])\<lparr>read_config_r := (0, 0)\<rparr>) (dnssec_validation svc_start)
   \<and> has_returned (SvcInit ((healthy [])\<lparr>read_config_r := (0, 0)\<rparr>) [] svc_start)
   \<and> new_calls svc_start (outcome_state (SvcInit ((healthy [])\<lparr>read_config_r := (0, 0)\<rparr>) [] svc_start)) =
        until_stopped (new_calls svc_start
          (outcome_state (SvcInit ((healthy [])\<lparr>read_config_r := (0, 0)\<rparr>) [] svc_start)))
        @ [SetServiceStatus
             (gSvcStatus (outcome_state (SvcInit ((healthy [])\<lparr>read_config_r := (0, 0)\<rparr>) [] svc_start))),
           getdns_context_destroy, delete_config, CloseHandle (Some 2)]"
proof -
  have h1: "CreateEvent_r ((healthy [])\<lparr>read_config_r := (0, 0)\<rparr>) = Some 2"
    by (simp add: healthy_def)
  have h2: "startup_fails ((healthy [])\<lparr>read_config_r := (0, 0)\<rparr>) (dnssec_validation svc_start)"
    by (simp add: startup_fails_def)
  have h3: "getdns_context_create_r ((healthy [])\<lparr>read_config_r := (0, 0)\<rparr>) = 0"
    by (simp add: healthy_def)
  from startup_failure_teardown [OF h1 h2, of "[]"] h1 h2 h3 show ?thesis
    by simp
qed

text \<open>
  Claim C3 as stated includes the failed creation of the context among the failures that
  fall through to the shared tear-down. In that run the service returns after reporting
  \<^verbatim>\<open>SERVICE_STOPPED\<close> without destroying a context or releasing the configuration.
\<close>

theorem context_failure_skips_shared_teardown:
  "has_returned (SvcMain ((healthy [])\<lparr>getdns_context_create_r := 1\<rparr>) [] svc_start)
   \<and> list_ex (reports SERVICE_STOPPED)
        (trace (outcome_state (SvcMain ((healthy [])\<lparr>getdns_context_create_r := 1\<rparr>) [] svc_start)))
   \<and> count_list
        (trace (outcome_state (SvcMain ((healthy [])\<lparr>getdns_context_create_r := 1\<rparr>) [] svc_start)))
        getdns_context_destroy = 0
   \<and> count_list
        (trace (outcome_state (SvcMain ((healthy [])\<lparr>getdns_context_create_r := 1\<rparr>) [] svc_start)))
        delete_config = 0"
  by code_simp

lemma trace_svc_start [simp]: "trace svc_start = []"
  by (simp add: svc_start_def)

lemma svc_states_distinct [simp]:
  "SERVICE_STOPPED \<noteq> SERVICE_START_PENDING" "SERVICE_START_PENDING \<noteq> SERVICE_STOPPED"
  "SERVICE_STOPPED \<noteq> SERVICE_STOP_PENDING" "SERVICE_STOP_PENDING \<noteq> SERVICE_STOPPED"
  "SERVICE_STOPPED \<noteq> SERVICE_RUNNING" "SERVICE_RUNNING \<noteq> SERVICE_STOPPED"
  "SERVICE_START_PENDING \<noteq> SERVICE_STOP_PENDING" "SERVICE_STOP_PENDING \<noteq> SERVICE_START_PENDING"
  "SERVICE_START_PENDING \<noteq> SERVICE_RUNNING" "SERVICE_RUNNING \<noteq> SERVICE_START_PENDING"
  "SERVICE_STOP_PENDING \<noteq> SERVICE_RUNNING" "SERVICE_RUNNING \<noteq> SERVICE_STOP_PENDING"
  by (simp_all add: svc_consts)

lemma SvcInit_failed_never_running:
  assumes "CreateEvent_r env = None \<or> startup_fails env (dnssec_validation s)"
  shows "\<not> list_ex (reports SERVICE_RUNNING) (new_calls s (outcome_state (SvcInit env argv s)))"
  using assms unfolding startup_fails_def
  by (auto simp add: SvcInit_def Let_def)

lemma SvcInit_started:
  assumes "CreateEvent_r env = Some h" "\<not> startup_fails env (dnssec_validation s)"
    and "has_returned (SvcInit env argv s)"
  shows "new_calls s (outcome_state (SvcInit env argv s)) =
           until_stopped (new_calls s (outcome_state (SvcInit env argv s)))
           @ [SetServiceStatus (gSvcStatus (outcome_state (SvcInit env argv s))),
              getdns_context_destroy, delete_config, CloseHandle (Some h)]
    \<and> dwCurrentState (gSvcStatus (outcome_state (SvcInit env argv s))) = SERVICE_STOPPED
    \<and> dwWin32ExitCode (gSvcStatus (outcome_state (SvcInit env argv s))) = 0
    \<and> \<not> list_ex is_teardown (until_stopped (new_calls s (outcome_state (SvcInit env argv s))))
    \<and> list_ex (reports SERVICE_RUNNING)
          (until_stopped (new_calls s (outcome_state (SvcInit env argv s))))"
proof (cases "1 < length argv")
  case True
  then show ?thesis
    using assms unfolding startup_fails_def
    by (simp add: SvcInit_def Let_def outcome_case_state
        outcome_case_returned trace_run_loop until_stopped_append)
next
  case False
  then show ?thesis
    using assms unfolding startup_fails_def
    by (simp add: SvcInit_def Let_def outcome_case_state
        outcome_case_returned trace_run_loop until_stopped_append)
qed

lemma SvcInit_extends:
  "trace (outcome_state (SvcInit env argv s)) =
     trace s @ new_calls s (outcome_state (SvcInit env argv s))"
proof -
  have "\<exists>cs. trace (outcome_state (SvcInit env argv s)) = trace s @ cs"
    by (simp add: SvcInit_def Let_def outcome_case_state trace_run_loop)
  then show ?thesis by (auto simp: new_calls_def)
qed

text \<open>
  Claim C2, as the code has it. When a run of the service has reported
  \<^verbatim>\<open>SERVICE_RUNNING\<close> and has returned from the loop, its trace is: calls that tear
  nothing down, the report of \<^verbatim>\<open>SERVICE_RUNNING\<close> among them; then the report of
  \<^verbatim>\<open>SERVICE_STOPPED\<close> with exit code 0; then, after that report, the three steps of the
  tear-down in the order destroy the context, release the configuration, close the stop
  handle, each once.
\<close>

theorem stopped_reported_before_teardown:
  assumes "has_returned (SvcMain env argv svc_start)"
    and "list_ex (reports SERVICE_RUNNING) (trace (outcome_state (SvcMain env argv svc_start)))"
  shows "trace (outcome_state (SvcMain env argv svc_start)) =
           until_stopped (trace (outcome_state (SvcMain env argv svc_start)))
           @ [SetServiceStatus (gSvcStatus (outcome_state (SvcMain env argv svc_start))),
              getdns_context_destroy, delete_config, CloseHandle (CreateEvent_r env)]
    \<and> dwCurrentState (gSvcStatus (outcome_state (SvcMain env argv svc_start))) = SERVICE_STOPPED
    \<and> dwWin32ExitCode (gSvcStatus (outcome_state (SvcMain env argv svc_start))) = 0
    \<and> \<not> list_ex is_teardown (until_stopped (trace (outcome_state (SvcMain env argv svc_start))))
    \<and> list_ex (reports SERVICE_RUNNING)
          (until_stopped (trace (outcome_state (SvcMain env argv svc_start))))"
proof (cases "RegisterServiceCtrlHandler_r env")
  case None
  define s2 where "s2 = (emit RegisterServiceCtrlHandler (emit stubby_set_log_funcs svc_start))
      \<lparr>gSvcStatusHandle := RegisterServiceCtrlHandler_r env\<rparr>"
  have "SvcMain env argv svc_start =
      Returned (report_winerr env ''RegisterServiceCtrlHandler'' s2)"
    using None by (simp add: SvcMain_def Let_def s2_def)
  moreover obtain f as where
    "trace (report_winerr env ''RegisterServiceCtrlHandler'' s2) = trace s2 @ [stubby_error f as]"
    using report_winerr_trace by blast
  ultimately have "trace (outcome_state (SvcMain env argv svc_start)) =
      [stubby_set_log_funcs, RegisterServiceCtrlHandler, stubby_error f as]"
    by (simp add: s2_def)
  then show ?thesis using assms(2) by simp
next
  case (Some hs)
  define s4 where "s4 = ReportSvcStatus SERVICE_START_PENDING 0 3000
     ((emit RegisterServiceCtrlHandler (emit stubby_set_log_funcs svc_start))
        \<lparr>gSvcStatusHandle := RegisterServiceCtrlHandler_r env,
         gSvcStatus := (gSvcStatus svc_start)\<lparr>dwServiceType := SERVICE_WIN32_OWN_PROCESS,
                                              dwServiceSpecificExitCode := 0\<rparr>\<rparr>)"
  define s' where "s' = outcome_state (SvcInit env argv s4)"
  define cs where "cs = new_calls s4 s'"
  have main: "SvcMain env argv svc_start = SvcInit env argv s4"
    using Some by (simp add: SvcMain_def Let_def s4_def)
  have t4: "trace s4 = [stubby_set_log_funcs, RegisterServiceCtrlHandler,
      SetServiceStatus (gSvcStatus s4)]"
    by (simp add: s4_def)
  have st4: "dwCurrentState (gSvcStatus s4) = SERVICE_START_PENDING"
    by (simp add: s4_def)
  have tr: "trace s' = trace s4 @ cs"
    unfolding s'_def cs_def by (rule SvcInit_extends)
  have running: "list_ex (reports SERVICE_RUNNING) cs"
    using assms(2) st4 by (simp add: main s'_def [symmetric] tr t4)
  have "\<not> (CreateEvent_r env = None \<or> startup_fails env (dnssec_validation s4))"
    using running SvcInit_failed_never_running [of env s4 argv]
    unfolding s'_def cs_def by blast
  then have ok: "CreateEvent_r env \<noteq> None" "\<not> startup_fails env (dnssec_validation s4)"
    by simp_all
  then obtain h where h: "CreateEvent_r env = Some h" by auto
  have ret: "has_returned (SvcInit env argv s4)"
    using assms(1) by (simp add: main)
  note fin = SvcInit_started [OF h ok(2) ret, folded s'_def, folded cs_def]
  have us: "until_stopped (trace s') = trace s4 @ until_stopped cs"
    using st4 by (simp add: tr t4)
  show ?thesis
    unfolding main s'_def [symmetric] us
    using fin h st4 by (simp add: tr t4)
qed

theorem stopped_reported_before_teardown_witness:
  "has_returned (SvcMain (healthy [idle]) [] svc_start)
   \<and> list_ex (reports SERVICE_RUNNING) (trace (outcome_state (SvcMain (healthy [idle]) [] svc_start)))
   \<and> trace (outcome_state (SvcMain (healthy [idle]) [] svc_start)) =
        until_stopped (trace (outcome_state (SvcMain (healthy [idle]) [] svc_start)))
        @ [SetServiceStatus (gSvcStatus (outcome_state (SvcMain (healthy [idle]) [] svc_start))),
           getdns_context_destroy, delete_config, CloseHandle (Some 2)]"
proof -
  have h1: "has_returned (SvcMain (healthy [idle]) [] svc_start)"
    by code_simp
  have h2: "list_ex (reports SERVICE_RUNNING)
      (trace (outcome_state (SvcMain (healthy [idle]) [] svc_start)))"
    by code_simp
  have h3: "CreateEvent_r (healthy [idle]) = Some 2"
    by (simp add: healthy_def)
  from stopped_reported_before_teardown [OF h1 h2] h1 h2 h3 show ?thesis
    by simp
qed

text \<open>
  Claim C2 as stated puts the three steps of the tear-down before the report of
  \<^verbatim>\<open>SERVICE_STOPPED\<close>. In the run of a service that starts, finds its stop event
  unsignaled and leaves the loop, no step of the tear-down precedes that report; the
  report precedes the tear-down.
\<close>

theorem teardown_follows_stopped_report:
  "has_returned (SvcMain (healthy [idle]) [] svc_start)
   \<and> list_ex (reports SERVICE_RUNNING) (trace (outcome_state (SvcMain (healthy [idle]) [] svc_start)))
   \<and> \<not> occurs_before is_teardown (reports SERVICE_STOPPED)
         (trace (outcome_state (SvcMain (healthy [idle]) [] svc_start)))
   \<and> occurs_before (reports SERVICE_STOPPED) is_teardown
         (trace (outcome_state (SvcMain (healthy [idle]) [] svc_start)))"
  by code_simp

section \<open>The logging bridge\<close>

lemmas loglevel_consts =
  GETDNS_LOG_EMERG_def GETDNS_LOG_ALERT_def GETDNS_LOG_CRIT_def GETDNS_LOG_ERR_def
  GETDNS_LOG_WARNING_def GETDNS_LOG_NOTICE_def GETDNS_LOG_INFO_def GETDNS_LOG_DEBUG_def

lemma severity_switch_class:
  "fst (severity_switch level) = event_class_of_severity level"
  by (simp add: severity_switch_def event_class_of_severity_def)

lemma severity_switch_names:
  "map (\<lambda>l. snd (severity_switch l)) named_severities =
     [SVC_EMERGENCY, SVC_ALERT, SVC_CRITICAL, SVC_ERROR, SVC_WARNING, SVC_NOTICE, SVC_INFO,
      SVC_DEBUG]"
  by (simp add: severity_switch_def named_severities_def loglevel_consts)

text \<open>
  Claim C8. When the event source registers, a log callback makes exactly three calls:
  the registration, one \<^verbatim>\<open>ReportEvent\<close> and the deregistration. The class of the
  event is the error class for emergency, alert, critical and error, the warning class for
  warning and notice, and the information class for info, debug and every other value of
  the severity. The eight named severities select eight different identifier names, hence
  eight different numbers under any numbering of the names that the header may define
  without repetition; a severity that has no name is reported as \<open>SVC_DEBUG\<close>.
\<close>

theorem report_verror_severity_mapping:
  assumes "RegisterEventSource_r env = Some h"
  shows "new_calls s (report_verror env level formatted s) =
           [RegisterEventSource SVCNAME,
            ReportEvent (Some h) (event_class_of_severity level) 0
              (event_id env (snd (severity_switch level))) [SVCNAME, take 255 formatted],
            DeregisterEventSource (Some h)]
    \<and> report_vlog env userarg system level formatted s = report_verror env level formatted s
    \<and> distinct (map (\<lambda>l. snd (severity_switch l)) named_severities)
    \<and> (inj (event_id env) \<longrightarrow>
          distinct (map (\<lambda>l. event_id env (snd (severity_switch l))) named_severities))
    \<and> (level \<notin> set named_severities \<longrightarrow> snd (severity_switch level) = SVC_DEBUG)"
proof -
  have calls: "new_calls s (report_verror env level formatted s) =
           [RegisterEventSource SVCNAME,
            ReportEvent (Some h) (event_class_of_severity level) 0
              (event_id env (snd (severity_switch level))) [SVCNAME, take 255 formatted],
            DeregisterEventSource (Some h)]"
    using assms severity_switch_class [of level]
    by (auto simp add: report_verror_def Let_def new_calls_def split: prod.splits)
  have names: "distinct (map (\<lambda>l. snd (severity_switch l)) named_severities)"
    by (simp add: severity_switch_names)
  have ids: "distinct (map (\<lambda>l. event_id env (snd (severity_switch l))) named_severities)"
    if "inj (event_id env)"
  proof -
    have "map (\<lambda>l. event_id env (snd (severity_switch l))) named_severities =
        map (event_id env) (map (\<lambda>l. snd (severity_switch l)) named_severities)"
      by simp
    then show ?thesis
      using names that by (simp only: distinct_map) (auto intro: inj_on_subset)
  qed
  have other: "snd (severity_switch level) = SVC_DEBUG" if "level \<notin> set named_severities"
    using that by (simp add: severity_switch_def named_severities_def)
  show ?thesis
    using calls names ids other by (simp add: report_vlog_def)
qed

lemma inj_sample_event_id: "inj sample_event_id"
proof (rule injI)
  fix x y assume "sample_event_id x = sample_event_id y"
  then show "x = y"
    by (cases x; cases y; simp add: sample_event_id_def)
qed

theorem report_verror_severity_mapping_witness:
  "RegisterEventSource_r (event_log (Some 7)) = Some 7
   \<and> new_calls in_loop (report_verror (event_log (Some 7)) GETDNS_LOG_NOTICE ''listening'' in_loop) =
        [RegisterEventSource SVCNAME,
         ReportEvent (Some 7) EVENTLOG_WARNING_TYPE 0 6 [SVCNAME, ''listening''],
         DeregisterEventSource (Some 7)]
   \<and> new_calls in_loop (report_verror (event_log (Some 7)) 42 ''listening'' in_loop) =
        [RegisterEventSource SVCNAME,
         ReportEvent (Some 7) EVENTLOG_INFORMATION_TYPE 0 8 [SVCNAME, ''listening''],
         DeregisterEventSource (Some 7)]
   \<and> inj (event_id (event_log (Some 7)))
   \<and> distinct (map (\<lambda>l. event_id (event_log (Some 7)) (snd (severity_switch l))) named_severities)"
proof -
  have h: "RegisterEventSource_r (event_log (Some 7)) = Some 7"
    by (simp add: event_log_def)
  have i: "inj (event_id (event_log (Some 7)))"
    by (simp add: event_log_def inj_sample_event_id)
  have c: "event_class_of_severity GETDNS_LOG_NOTICE = EVENTLOG_WARNING_TYPE"
    "event_class_of_severity 42 = EVENTLOG_INFORMATION_TYPE"
    "event_id (event_log (Some 7)) (snd (severity_switch GETDNS_LOG_NOTICE)) = 6"
    "event_id (event_log (Some 7)) (snd (severity_switch 42)) = 8"
    by (simp_all add: event_class_of_severity_def severity_switch_def event_log_def
        sample_event_id_def loglevel_consts)
  from report_verror_severity_mapping [OF h, of in_loop GETDNS_LOG_NOTICE "''listening''"]
    report_verror_severity_mapping [OF h, of in_loop 42 "''listening''"] h i c
  show ?thesis by simp
qed

text \<open>
  Claim C10. When the registration of the event source fails, the log callback returns
  after that one call: no event is reported, and the state of the process is what it was
  before the callback, the record of the failed registration apart. The callback has no
  result and no way to end the process, so nothing is propagated.
\<close>

theorem report_verror_drops_message:
  assumes "RegisterEventSource_r env = None"
  shows "report_verror env level formatted s = s\<lparr>trace := trace s @ [RegisterEventSource SVCNAME]\<rparr>
    \<and> report_vlog env userarg system level formatted s =
        s\<lparr>trace := trace s @ [RegisterEventSource SVCNAME]\<rparr>
    \<and> new_calls s (report_verror env level formatted s) = [RegisterEventSource SVCNAME]"
  using assms by (simp add: report_verror_def report_vlog_def Let_def emit_def new_calls_def)

theorem report_verror_drops_message_witness:
  "RegisterEventSource_r (event_log None) = None
   \<and> new_calls in_loop (report_verror (event_log None) GETDNS_LOG_ERR ''lost'' in_loop) =
        [RegisterEventSource SVCNAME]
   \<and> report_vlog (event_log None) 0 0 GETDNS_LOG_ERR ''lost'' in_loop =
        in_loop\<lparr>trace := trace in_loop @ [RegisterEventSource SVCNAME]\<rparr>"
proof -
  have h: "RegisterEventSource_r (event_log None) = None"
    by (simp add: event_log_def)
  from report_verror_drops_message [OF h, of GETDNS_LOG_ERR "''lost''" in_loop 0 0] h
  show ?thesis by simp
qed

section \<open>Installation and removal\<close>

lemma winerr_Exit:
  "winerr env operation err s =
     Exit EXIT_FAILURE
       (emit (case FormatMessage_r env err of
                None \<Rightarrow> fprintf_stderr (''Error: %s: errno=%d'' @ [CHR 0x0A])
                          [ArgS operation, ArgD (sint err)]
              | Some msg \<Rightarrow> fprintf_stderr (''Error: %s: %s'' @ [CHR 0x0A])
                          [ArgS operation, ArgS msg]) s)"
  by (simp add: winerr_def split: option.splits)

lemma RegSetValueEx_call_facts [simp]:
  "trace (RegSetValueEx_call env name v s) = trace s @ [RegSetValueEx name v]"
  "service (sys (RegSetValueEx_call env name v s)) = service (sys s)"
  "(eventlog_key (sys (RegSetValueEx_call env name v s)) = None) = (eventlog_key (sys s) = None)"
  "(\<exists>y. eventlog_key (sys (RegSetValueEx_call env name v s)) = Some y) =
     (\<exists>y. eventlog_key (sys s) = Some y)"
  by (auto simp add: RegSetValueEx_call_def Let_def)

lemma SvcRemove_sys:
  "service_without_eventlog (sys (flow_state (SvcRemove env s))) \<Longrightarrow>
     service_without_eventlog (sys s)"
  by (simp add: SvcRemove_def deleteRegistryEntries_def winlasterr_def winerr_Exit Let_def
      service_without_eventlog_def
      split: if_splits)

lemma SvcInstall_sys:
  "service_without_eventlog (sys (flow_state (SvcInstall env s))) \<Longrightarrow>
     service_without_eventlog (sys s)"
  by (simp add: SvcInstall_def createRegistryEntries_def winlasterr_def winerr_Exit Let_def
      service_without_eventlog_def
      split: option.splits if_splits)

lemma eventlog_keys_differ [simp]: "eventlog_application \<noteq> eventlog_service_key"
  by (simp add: eventlog_service_key_def)

lemma SvcInstall_order_ex:
  "\<exists>cs. trace (flow_state (SvcInstall env s)) = trace s @ cs
     \<and> \<not> occurs_before creates_service creates_eventlog_key cs
     \<and> (list_ex creates_service cs \<longrightarrow> occurs_before creates_eventlog_key creates_service cs)"
  by (simp add: SvcInstall_def createRegistryEntries_def winlasterr_def winerr_Exit Let_def
      split: option.splits)

lemma SvcRemove_order_ex:
  "\<exists>cs. trace (flow_state (SvcRemove env s)) = trace s @ cs
     \<and> \<not> occurs_before deletes_eventlog_key deletes_service cs
     \<and> (list_ex deletes_eventlog_key cs \<longrightarrow> occurs_before deletes_service deletes_eventlog_key cs)"
  by (simp add: SvcRemove_def deleteRegistryEntries_def winlasterr_def winerr_Exit Let_def
      split: option.splits)

text \<open>
  Claim C7, as the code has it. Among the calls of an installation, whatever the operating
  system answers, no creation of the service precedes the creation of the event-log key,
  and a creation of the service is preceded by that of the key. Among the calls of a
  removal no deletion of the event-log key precedes the deletion of the service, and a
  deletion of the key is preceded by that of the service. Hence neither command, complete
  or cut short by a failure, leaves a service registration without its event-log key
  when there was none before.
\<close>

theorem install_remove_order:
  "\<not> occurs_before creates_service creates_eventlog_key
       (new_calls s (flow_state (SvcInstall env s)))
   \<and> (list_ex creates_service (new_calls s (flow_state (SvcInstall env s))) \<longrightarrow>
        occurs_before creates_eventlog_key creates_service
          (new_calls s (flow_state (SvcInstall env s))))
   \<and> \<not> occurs_before deletes_eventlog_key deletes_service
         (new_calls s (flow_state (SvcRemove env s)))
   \<and> (list_ex deletes_eventlog_key (new_calls s (flow_state (SvcRemove env s))) \<longrightarrow>
        occurs_before deletes_service deletes_eventlog_key
          (new_calls s (flow_state (SvcRemove env s))))
   \<and> (\<not> service_without_eventlog (sys s) \<longrightarrow>
        \<not> service_without_eventlog (sys (flow_state (SvcInstall env s)))
        \<and> \<not> service_without_eventlog (sys (flow_state (SvcRemove env s))))"
proof -
  obtain ci where ci: "trace (flow_state (SvcInstall env s)) = trace s @ ci"
    "\<not> occurs_before creates_service creates_eventlog_key ci"
    "list_ex creates_service ci \<longrightarrow> occurs_before creates_eventlog_key creates_service ci"
    using SvcInstall_order_ex by blast
  obtain cr where cr: "trace (flow_state (SvcRemove env s)) = trace s @ cr"
    "\<not> occurs_before deletes_eventlog_key deletes_service cr"
    "list_ex deletes_eventlog_key cr \<longrightarrow> occurs_before deletes_service deletes_eventlog_key cr"
    using SvcRemove_order_ex by blast
  have "new_calls s (flow_state (SvcInstall env s)) = ci"
    "new_calls s (flow_state (SvcRemove env s)) = cr"
    using ci(1) cr(1) by (simp_all add: new_calls_def)
  then show ?thesis
    using ci(2,3) cr(2,3) SvcInstall_sys [of env s] SvcRemove_sys [of env s] by auto
qed

theorem install_remove_order_witness:
  "list_ex creates_service (new_calls fresh (flow_state (SvcInstall cli_ok fresh)))
   \<and> occurs_before creates_eventlog_key creates_service
        (new_calls fresh (flow_state (SvcInstall cli_ok fresh)))
   \<and> list_ex deletes_eventlog_key (new_calls installed (flow_state (SvcRemove cli_ok installed)))
   \<and> occurs_before deletes_service deletes_eventlog_key
        (new_calls installed (flow_state (SvcRemove cli_ok installed)))
   \<and> \<not> service_without_eventlog (sys installed)
   \<and> \<not> service_without_eventlog
         (sys (flow_state (SvcRemove (cli_ok\<lparr>RegDeleteKey_r := 5\<rparr>) installed)))"
proof -
  have a: "list_ex creates_service (new_calls fresh (flow_state (SvcInstall cli_ok fresh)))"
    by code_simp
  have b: "list_ex deletes_eventlog_key
      (new_calls installed (flow_state (SvcRemove cli_ok installed)))"
    by code_simp
  have c: "\<not> service_without_eventlog (sys installed)"
    by code_simp
  from install_remove_order [of fresh cli_ok] install_remove_order [of installed cli_ok]
    install_remove_order [of installed "cli_ok\<lparr>RegDeleteKey_r := 5\<rparr>"] a b c
  show ?thesis by blast
qed

text \<open>
  Claim C7 as stated concludes that a command cut short never leaves the event-log key
  without a service registration. It does: an installation on a fresh machine whose
  creation of the service fails has written the key, and a removal whose deletion of the
  key fails has deleted the service; both end the process with the failure status.
\<close>

theorem install_leaves_orphan_eventlog_key:
  "exit_status (SvcInstall (cli_ok\<lparr>CreateService_r := None\<rparr>) fresh) = Some EXIT_FAILURE
   \<and> eventlog_without_service (sys (flow_state (SvcInstall (cli_ok\<lparr>CreateService_r := None\<rparr>) fresh)))
   \<and> exit_status (SvcRemove (cli_ok\<lparr>RegDeleteKey_r := 5\<rparr>) installed) = Some EXIT_FAILURE
   \<and> eventlog_without_service (sys (flow_state (SvcRemove (cli_ok\<lparr>RegDeleteKey_r := 5\<rparr>) installed)))
   \<and> \<not> eventlog_without_service (sys fresh)
   \<and> \<not> eventlog_without_service (sys installed)"
  by code_simp

section \<open>The command dispatcher\<close>

lemma recognised_iff: "recognised arg = (map to_lower arg \<in> set commands)"
  by (simp add: recognised_def commands_def lstrcmpi_def to_lower_def)

lemma SvcInstall_completes:
  "no_os_failure env \<Longrightarrow> exit_status (exit_after EXIT_SUCCESS (SvcInstall env s)) = Some EXIT_SUCCESS"
  by (clarsimp simp add: no_os_failure_def SvcInstall_def createRegistryEntries_def Let_def)

lemma SvcRemove_completes:
  "no_os_failure env \<Longrightarrow> exit_status (exit_after EXIT_SUCCESS (SvcRemove env s)) = Some EXIT_SUCCESS"
  by (clarsimp simp add: no_os_failure_def SvcRemove_def deleteRegistryEntries_def Let_def)

lemma SvcService_completes:
  "no_os_failure env \<Longrightarrow> exit_status (exit_after EXIT_SUCCESS (SvcService env s)) = Some EXIT_SUCCESS"
  by (clarsimp simp add: no_os_failure_def SvcService_def Let_def)

lemma SvcStart_completes:
  "no_os_failure env \<Longrightarrow>
     exit_status (exit_after EXIT_SUCCESS (SvcStart env loglevel s)) = Some EXIT_SUCCESS"
  by (clarsimp simp add: no_os_failure_def SvcStart_def Let_def)

lemma SvcStop_completes:
  "no_os_failure env \<Longrightarrow> exit_status (exit_after EXIT_SUCCESS (SvcStop env s)) = Some EXIT_SUCCESS"
  by (clarsimp simp add: no_os_failure_def SvcStop_def Let_def)

text \<open>
  Claim C9. A token is recognised when it equals one of install, remove, service, start
  and stop after folding upper-case letters. For any other token the dispatcher makes one
  call, the diagnostic on standard error with the token as its argument, and ends the
  process with the failure status. For a recognised token, when no call of the operating
  system fails and the service dispatcher returns, the process ends with the success
  status.
\<close>

theorem windows_service_command_exit:
  "(\<not> recognised arg \<longrightarrow>
      windows_service_command env arg loglevel s =
        Exit EXIT_FAILURE
          (emit (fprintf_stderr
                   (''Unknown Windows option '' @ [CHR 0x27] @ ''%s'' @ [CHR 0x27, CHR 0x0A])
                   [ArgS arg]) s))
   \<and> (recognised arg \<and> no_os_failure env \<longrightarrow>
        exit_status (windows_service_command env arg loglevel s) = Some EXIT_SUCCESS)
   \<and> recognised arg = (map to_lower arg \<in> set commands)"
proof -
  have unknown: "windows_service_command env arg loglevel s =
      Exit EXIT_FAILURE (emit (unknown_option arg) s)" if "\<not> recognised arg"
    using that by (simp add: windows_service_command_def recognised_def commands_def)
  have known: "exit_status (windows_service_command env arg loglevel s) = Some EXIT_SUCCESS"
    if "recognised arg" "no_os_failure env"
    using that(1) SvcInstall_completes [OF that(2)] SvcRemove_completes [OF that(2)]
      SvcService_completes [OF that(2)] SvcStart_completes [OF that(2)]
      SvcStop_completes [OF that(2)]
    by (auto simp add: windows_service_command_def recognised_def commands_def)
  show ?thesis
    using unknown known recognised_iff by (simp add: unknown_option_def)
qed

theorem windows_service_command_exit_witness:
  "\<not> recognised ''uninstall''
   \<and> windows_service_command cli_ok ''uninstall'' 3 fresh =
        Exit EXIT_FAILURE
          (emit (fprintf_stderr
                   (''Unknown Windows option '' @ [CHR 0x27] @ ''%s'' @ [CHR 0x27, CHR 0x0A])
                   [ArgS ''uninstall'']) fresh)
   \<and> recognised ''Install'' \<and> no_os_failure cli_ok
   \<and> exit_status (windows_service_command cli_ok ''Install'' 3 fresh) = Some EXIT_SUCCESS"
proof -
  have a: "\<not> recognised ''uninstall''" by code_simp
  have b: "recognised ''Install''" by code_simp
  have c: "no_os_failure cli_ok" by code_simp
  from windows_service_command_exit [of "''uninstall''" cli_ok 3 fresh]
    windows_service_command_exit [of "''Install''" cli_ok 3 fresh] a b c
  show ?thesis by blast
qed

end
